theory Spec2Isabelle
  imports Complex_Main
begin

section \<open>JavaScript values\<close>

text \<open>
  The handler exported by \<^verbatim>\<open>src/main.js\<close> works on JSON data: the request body, the parsed
  payload, the vendor's response and the object handed to \<^verbatim>\<open>context.res.json\<close>.
  A JavaScript number is either NaN, an infinity or a finite value; the finite values are
  kept as rationals (every finite double is one), which is all the handler's comparison
  \<^verbatim>\<open>amount <= 0\<close> looks at. Both zeros are \<open>NumFin 0\<close>.
\<close>

datatype jsnum = NumNaN | NumInf | NumNegInf | NumFin rat

datatype jsval =
    JUndefined
  | JNull
  | JBool bool
  | JNum jsnum
  | JStr string
  | JArr "jsval list"
  | JObj "(string \<times> jsval) list"

text \<open>\<^verbatim>\<open>isNaN(amount)\<close> and \<^verbatim>\<open>amount <= 0\<close> on a number.\<close>

fun isNaN :: "jsnum \<Rightarrow> bool" where
  "isNaN NumNaN = True"
| "isNaN _ = False"

fun le_zero :: "jsnum \<Rightarrow> bool" where
  "le_zero NumNaN = False"
| "le_zero NumInf = False"
| "le_zero NumNegInf = True"
| "le_zero (NumFin r) = (r \<le> 0)"

text \<open>
  ToBoolean: what \<^verbatim>\<open>!v\<close> and \<^verbatim>\<open>v || w\<close> test. The falsy values are undefined, null,
  false, NaN, zero and the empty string; every array and object is truthy.
\<close>

fun truthy :: "jsval \<Rightarrow> bool" where
  "truthy JUndefined = False"
| "truthy JNull = False"
| "truthy (JBool b) = b"
| "truthy (JNum n) = (n \<noteq> NumNaN \<and> n \<noteq> NumFin 0)"
| "truthy (JStr s) = (s \<noteq> [])"
| "truthy (JArr _) = True"
| "truthy (JObj _) = True"

text \<open>\<^verbatim>\<open>a || b\<close> on values.\<close>

definition js_or :: "jsval \<Rightarrow> jsval \<Rightarrow> jsval" where
  "js_or a b = (if truthy a then a else b)"

fun nullish :: "jsval \<Rightarrow> bool" where
  "nullish JUndefined = True"
| "nullish JNull = True"
| "nullish _ = False"

text \<open>
  \<^verbatim>\<open>v.k\<close> for a value \<open>v\<close> that is neither null nor undefined and one of the property
  names this program reads (action, data, amount, currency, orderId, result, links, rel,
  href, id, status, payer, create_time, purchase_units, and statusCode, message and
  stack of a caught value): an object yields its own property, or undefined when it has
  none; strings, numbers, booleans and arrays have no property of these names, so they
  yield undefined. The first entry of a key in the association list is the object's
  property.
\<close>

fun prop_of :: "jsval \<Rightarrow> string \<Rightarrow> jsval" where
  "prop_of (JObj kvs) k = (case map_of kvs k of None \<Rightarrow> JUndefined | Some v \<Rightarrow> v)"
| "prop_of _ k = JUndefined"

text \<open>Optional chaining \<^verbatim>\<open>v?.k\<close>.\<close>

definition opt_prop :: "jsval \<Rightarrow> string \<Rightarrow> jsval" where
  "opt_prop v k = (if nullish v then JUndefined else prop_of v k)"

section \<open>Errors, the runtime and the environment\<close>

text \<open>
  Any value can be thrown, and the awaited SDK call can reject with any value, so a
  thrown value is a \<open>jsval\<close>. An error object is the object of the properties the
  \<^verbatim>\<open>catch\<close> block reads: \<open>statusCode\<close>, \<open>message\<close> and \<open>stack\<close>.

  The built-ins the handler calls are parameters of the model: \<^verbatim>\<open>JSON.parse\<close>
  (\<open>None\<close> when it throws a SyntaxError), \<^verbatim>\<open>parseFloat\<close>, the string conversion that
  \<^verbatim>\<open>RegExp.prototype.test\<close> applies to an argument that is not a string, the text of a
  finite number that is at least \<open>10 ^ 21\<close> (its exponent notation), the stack trace an
  error created with a given message captures, and the message of the TypeError raised
  by a failed property read or method call. \<^verbatim>\<open>parseFloat\<close> and the string conversion
  can throw: converting an object whose \<open>toString\<close> property is not callable to a
  string raises a TypeError.
\<close>

record runtime =
  JSON_parse :: "string \<Rightarrow> jsval option"
  parseFloat :: "jsval \<Rightarrow> jsval + jsnum"
  ToString :: "jsval \<Rightarrow> jsval + string"
  Number_toString :: "rat \<Rightarrow> string"
  stack_trace :: "string \<Rightarrow> jsval"
  type_error_message :: "jsval \<Rightarrow> string \<Rightarrow> string"

text \<open>\<^verbatim>\<open>new Error(msg)\<close>: the message is \<open>msg\<close> and there is no statusCode.\<close>

definition new_Error :: "runtime \<Rightarrow> string \<Rightarrow> jsval" where
  "new_Error rt msg = JObj [(''message'', JStr msg), (''stack'', stack_trace rt msg)]"

text \<open>The TypeError of reading or calling property \<open>k\<close> of \<open>v\<close>.\<close>

definition TypeError :: "runtime \<Rightarrow> jsval \<Rightarrow> string \<Rightarrow> jsval" where
  "TypeError rt v k =
     JObj [(''message'', JStr (type_error_message rt v k)),
           (''stack'', stack_trace rt (type_error_message rt v k))]"

text \<open>\<^verbatim>\<open>v.k\<close> for any value: reading a property of null or undefined throws.\<close>

definition read_prop :: "runtime \<Rightarrow> jsval \<Rightarrow> string \<Rightarrow> jsval + jsval" where
  "read_prop rt v k = (if nullish v then Inl (TypeError rt v k) else Inr (prop_of v k))"

text \<open>Sequencing of steps that may throw: \<open>Inl\<close> holds the thrown value.\<close>

definition and_then :: "jsval + 'a \<Rightarrow> ('a \<Rightarrow> jsval + 'b) \<Rightarrow> jsval + 'b" where
  "and_then r f = (case r of Inl e \<Rightarrow> Inl e | Inr v \<Rightarrow> f v)"

text \<open>\<^verbatim>\<open>process.env\<close>: a variable is unset or holds a string.\<close>

type_synonym env = "string \<Rightarrow> string option"

text \<open>A variable read from \<^verbatim>\<open>process.env\<close> is truthy when it is set and not empty.\<close>

fun env_truthy :: "string option \<Rightarrow> bool" where
  "env_truthy None = False"
| "env_truthy (Some s) = (s \<noteq> [])"

section \<open>The vendor SDK\<close>

datatype paypal_environment =
    LiveEnvironment string string
  | SandboxEnvironment string string

datatype paypal_client = PayPalHttpClient paypal_environment

datatype sdk_request =
    OrdersCreateRequest (prefer_header: string) (create_requestBody: jsval)
  | OrdersCaptureRequest (capture_orderId: jsval) (capture_requestBody: jsval)

text \<open>
  \<^verbatim>\<open>await paypalClient.execute(request)\<close>: the one network call. It yields the vendor's
  response (\<open>Inr\<close>) or rejects with a value (\<open>Inl\<close>), which \<^verbatim>\<open>await\<close> throws.
\<close>

type_synonym sdk = "paypal_client \<Rightarrow> sdk_request \<Rightarrow> jsval + jsval"

type_synonym sdk_call = "paypal_client \<times> sdk_request"

definition createPayPalClient :: "runtime \<Rightarrow> env \<Rightarrow> jsval + paypal_client" where
  "createPayPalClient rt penv =
     (case (penv ''PAYPAL_CLIENT_ID'', penv ''PAYPAL_SECRET'') of
        (Some clientId, Some clientSecret) \<Rightarrow>
          if clientId = [] \<or> clientSecret = []
          then Inl (new_Error rt ''PayPal credentials not configured'')
          else Inr (PayPalHttpClient
                 (if penv ''PAYPAL_ENVIRONMENT'' = Some ''production''
                  then LiveEnvironment clientId clientSecret
                  else SandboxEnvironment clientId clientSecret))
      | _ \<Rightarrow> Inl (new_Error rt ''PayPal credentials not configured''))"

section \<open>The handler\<close>

text \<open>The error object literals of the validation branches.\<close>

definition error_envelope :: "rat \<Rightarrow> string \<Rightarrow> jsval" where
  "error_envelope c msg =
     JObj [(''status'', JStr ''error''), (''code'', JNum (NumFin c)), (''message'', JStr msg)]"

text \<open>
  The body is parsed only when it is a string; the inner \<^verbatim>\<open>try\<close> turns a SyntaxError
  into \<open>None\<close>.
\<close>

definition parse_payload :: "runtime \<Rightarrow> jsval \<Rightarrow> jsval option" where
  "parse_payload rt body = (case body of JStr s \<Rightarrow> JSON_parse rt s | _ \<Rightarrow> Some body)"

text \<open>
  \<^verbatim>\<open>/^[A-Z0-9]{17}$/.test(x)\<close>: \<open>x\<close> is converted to a string, which must be exactly 17
  characters, each an upper-case ASCII letter or a digit.
\<close>

definition upper_or_digit :: "char \<Rightarrow> bool" where
  "upper_or_digit c =
     (let n = (of_char c :: nat) in (65 \<le> n \<and> n \<le> 90) \<or> (48 \<le> n \<and> n \<le> 57))"

definition order_id_pattern :: "string \<Rightarrow> bool" where
  "order_id_pattern s = (length s = 17 \<and> list_all upper_or_digit s)"

definition regex_test :: "runtime \<Rightarrow> jsval \<Rightarrow> jsval + bool" where
  "regex_test rt x =
     (case x of
        JStr s \<Rightarrow> Inr (order_id_pattern s)
      | _ \<Rightarrow> and_then (ToString rt x) (\<lambda>s. Inr (order_id_pattern s)))"

text \<open>
  \<^verbatim>\<open>links.find(link => link.rel === 'approve')\<close> on the elements of an array: the first
  element whose \<open>rel\<close> is the string, undefined when there is none; reading \<open>rel\<close> of a
  null element throws.
\<close>

fun find_approve :: "runtime \<Rightarrow> jsval list \<Rightarrow> jsval + jsval" where
  "find_approve rt [] = Inr JUndefined"
| "find_approve rt (link # links) =
     (if nullish link then Inl (TypeError rt link ''rel'')
      else if prop_of link ''rel'' = JStr ''approve'' then Inr link
      else find_approve rt links)"

text \<open>Calling \<^verbatim>\<open>.find\<close> on anything but an array throws a TypeError.\<close>

definition links_find :: "runtime \<Rightarrow> jsval \<Rightarrow> jsval + jsval" where
  "links_find rt links =
     (case links of JArr ls \<Rightarrow> find_approve rt ls | _ \<Rightarrow> Inl (TypeError rt links ''find''))"

text \<open>
  \<^verbatim>\<open>amount.toFixed(fd)\<close>, as the language defines it. A value that is not finite gives
  its name. Otherwise the sign is written first; an absolute value of \<open>10 ^ 21\<close> or
  more is written as the number's own text; a smaller one is rounded to the nearest
  multiple of \<open>1 / 10 ^ fd\<close> (the larger one on a tie) and written with its whole part,
  a point and exactly \<open>fd\<close> digits.
\<close>

fun decimal :: "nat \<Rightarrow> string" where
  "decimal n =
     (if n < 10 then [''0123456789'' ! n]
      else decimal (n div 10) @ [''0123456789'' ! (n mod 10)])"

declare decimal.simps [simp del]

definition fixed_digits :: "rat \<Rightarrow> nat \<Rightarrow> string" where
  "fixed_digits x fd =
     (let n = nat \<lfloor>x * 10 ^ fd + 1 / 2\<rfloor>;
          fraction = decimal (n mod 10 ^ fd)
      in decimal (n div 10 ^ fd) @
         (if fd = 0 then [] else ''.'' @ replicate (fd - length fraction) CHR ''0'' @ fraction))"

definition toFixed :: "runtime \<Rightarrow> jsnum \<Rightarrow> nat \<Rightarrow> string" where
  "toFixed rt a fd =
     (case a of
        NumNaN \<Rightarrow> ''NaN''
      | NumInf \<Rightarrow> ''Infinity''
      | NumNegInf \<Rightarrow> ''-Infinity''
      | NumFin x \<Rightarrow>
          (if x < 0 then ''-'' else []) @
          (if 10 ^ 21 \<le> \<bar>x\<bar> then Number_toString rt \<bar>x\<bar> else fixed_digits \<bar>x\<bar> fd))"

text \<open>The request body of the create request (lines 68 to 82).\<close>

definition create_body :: "runtime \<Rightarrow> jsval \<Rightarrow> jsnum \<Rightarrow> jsval" where
  "create_body rt payload amount =
     JObj [(''intent'', JStr ''CAPTURE''),
           (''application_context'',
              JObj [(''shipping_preference'', JStr ''NO_SHIPPING''),
                    (''user_action'', JStr ''PAY_NOW''),
                    (''return_url'', JStr ''digitalevdoctor://payment-success''),
                    (''cancel_url'', JStr ''digitalevdoctor://payment-canceled'')]),
           (''purchase_units'',
              JArr [JObj [(''amount'',
                JObj [(''currency_code'',
                         js_or (prop_of (prop_of payload ''data'') ''currency'') (JStr ''EUR'')),
                      (''value'', JStr (toFixed rt amount 2))])]])]"

text \<open>What follows the awaited create call (lines 85 to 100).\<close>

definition create_result :: "runtime \<Rightarrow> jsval \<Rightarrow> jsval + jsval" where
  "create_result rt createResponse =
     and_then (read_prop rt createResponse ''result'') (\<lambda>result.
     and_then (read_prop rt result ''links'') (\<lambda>links.
     and_then (links_find rt links) (\<lambda>approvalLink.
       if \<not> truthy (opt_prop approvalLink ''href'')
       then Inl (new_Error rt ''Missing approval URL in PayPal response'')
       else Inr (JObj [(''status'', JStr ''success''),
                       (''data'', JObj [(''orderId'', prop_of result ''id''),
                                        (''approvalUrl'', prop_of approvalLink ''href''),
                                        (''status'', prop_of result ''status'')])]))))"

text \<open>
  A branch yields the SDK calls it made, in order, and either the thrown error or the
  object it passed to \<^verbatim>\<open>context.res.json\<close>. In the capture branch the pattern is
  tested only when \<open>orderId\<close> is truthy, as \<^verbatim>\<open>||\<close> evaluates its right operand only
  then.
\<close>

definition createOrder_branch ::
  "runtime \<Rightarrow> sdk \<Rightarrow> paypal_client \<Rightarrow> jsval \<Rightarrow> sdk_call list \<times> (jsval + jsval)" where
  "createOrder_branch rt execute paypalClient payload =
     (case parseFloat rt (prop_of (prop_of payload ''data'') ''amount'') of
        Inl e \<Rightarrow> ([], Inl e)
      | Inr amount \<Rightarrow>
          if isNaN amount \<or> le_zero amount
          then ([], Inr (error_envelope 400 ''Invalid amount specified''))
          else
            (let createRequest =
                   OrdersCreateRequest ''return=representation'' (create_body rt payload amount)
             in ([(paypalClient, createRequest)],
                 and_then (execute paypalClient createRequest) (create_result rt))))"

text \<open>What follows the awaited capture call (lines 117 to 132).\<close>

definition capture_result :: "runtime \<Rightarrow> jsval \<Rightarrow> jsval + jsval" where
  "capture_result rt captureResponse =
     (if \<not> truthy (opt_prop (opt_prop captureResponse ''result'') ''id'')
      then Inl (new_Error rt ''Incomplete capture response from PayPal'')
      else
        (let result = prop_of captureResponse ''result''
         in Inr (JObj [(''status'', JStr ''success''),
                       (''data'',
                          JObj [(''captureId'', prop_of result ''id''),
                                (''status'', prop_of result ''status''),
                                (''details'',
                                   JObj [(''payer'', prop_of result ''payer''),
                                         (''create_time'', prop_of result ''create_time''),
                                         (''purchase_units'',
                                            prop_of result ''purchase_units'')])])])))"

definition captureOrder_branch ::
  "runtime \<Rightarrow> sdk \<Rightarrow> paypal_client \<Rightarrow> jsval \<Rightarrow> sdk_call list \<times> (jsval + jsval)" where
  "captureOrder_branch rt execute paypalClient payload =
     (let order_id = prop_of (prop_of payload ''data'') ''orderId''
      in if \<not> truthy order_id
         then ([], Inr (error_envelope 400 ''Invalid order ID''))
         else
           (case regex_test rt order_id of
              Inl e \<Rightarrow> ([], Inl e)
            | Inr matches \<Rightarrow>
                if \<not> matches
                then ([], Inr (error_envelope 400 ''Invalid order ID''))
                else
                  (let captureRequest = OrdersCaptureRequest order_id (JObj [])
                   in ([(paypalClient, captureRequest)],
                       and_then (execute paypalClient captureRequest) (capture_result rt)))))"

text \<open>The body of the outer \<^verbatim>\<open>try\<close> (lines 19 to 141).\<close>

definition try_block ::
  "runtime \<Rightarrow> env \<Rightarrow> sdk \<Rightarrow> jsval \<Rightarrow> sdk_call list \<times> (jsval + jsval)" where
  "try_block rt penv execute body =
     (if \<not> truthy body
      then ([], Inr (error_envelope 400 ''Request body is required''))
      else
        (case parse_payload rt body of
           None \<Rightarrow> ([], Inr (error_envelope 400 ''Invalid JSON format''))
         | Some payload \<Rightarrow>
             if nullish payload then ([], Inl (TypeError rt payload ''action''))
             else if \<not> truthy (prop_of payload ''action'') \<or> \<not> truthy (prop_of payload ''data'')
             then ([], Inr (error_envelope 400 ''Missing action or data parameter''))
             else
               (case createPayPalClient rt penv of
                  Inl e \<Rightarrow> ([], Inl e)
                | Inr paypalClient \<Rightarrow>
                    if prop_of payload ''action'' = JStr ''createOrder''
                    then createOrder_branch rt execute paypalClient payload
                    else if prop_of payload ''action'' = JStr ''captureOrder''
                    then captureOrder_branch rt execute paypalClient payload
                    else ([], Inr (error_envelope 400 ''Unsupported action'')))))"

text \<open>
  The object literal of the \<^verbatim>\<open>catch\<close> block (lines 145 to 150), for a caught value
  that is neither null nor undefined.
\<close>

definition catch_response :: "env \<Rightarrow> jsval \<Rightarrow> jsval" where
  "catch_response penv error =
     JObj ([(''status'', JStr ''error''),
            (''code'', js_or (prop_of error ''statusCode'') (JNum (NumFin 500))),
            (''message'', js_or (prop_of error ''message'') (JStr ''Internal server error''))]
           @ (if penv ''NODE_ENV'' \<noteq> Some ''production''
              then [(''debug'', prop_of error ''stack'')] else []))"

text \<open>
  The \<^verbatim>\<open>catch\<close> block after the caught value is logged: the first property it reads is
  \<^verbatim>\<open>error.statusCode\<close>, which throws when the caught value is null or undefined, so that
  no object is passed to \<^verbatim>\<open>context.res.json\<close> and the thrown TypeError leaves the handler.
\<close>

definition catch_block :: "runtime \<Rightarrow> env \<Rightarrow> jsval \<Rightarrow> jsval + jsval" where
  "catch_block rt penv error =
     (if nullish error then Inl (TypeError rt error ''statusCode'')
      else Inr (catch_response penv error))"

text \<open>
  One invocation of the exported handler: the SDK calls made, the values passed to
  \<^verbatim>\<open>context.error\<close>, and the object passed to \<^verbatim>\<open>context.res.json\<close>, if one was: there
  is none when the \<^verbatim>\<open>catch\<close> block itself throws and the handler's promise rejects.
\<close>

record invocation =
  sdk_calls :: "sdk_call list"
  error_log :: "jsval list"
  response :: "jsval option"

definition module_exports :: "runtime \<Rightarrow> env \<Rightarrow> sdk \<Rightarrow> jsval \<Rightarrow> invocation" where
  "module_exports rt penv execute body =
     (case try_block rt penv execute body of
        (calls, Inr res) \<Rightarrow> \<lparr>sdk_calls = calls, error_log = [], response = Some res\<rparr>
      | (calls, Inl error) \<Rightarrow>
          \<lparr>sdk_calls = calls, error_log = [error],
           response = (case catch_block rt penv error of
                         Inl thrown \<Rightarrow> None
                       | Inr res \<Rightarrow> Some res)\<rparr>)"

text \<open>The property names of an object, in order.\<close>

definition keys :: "jsval \<Rightarrow> string list" where
  "keys v = (case v of JObj kvs \<Rightarrow> map fst kvs | _ \<Rightarrow> [])"

text \<open>
  A text with exactly two decimal places: one or more digits, a point and two digits.
\<close>

definition is_digit :: "char \<Rightarrow> bool" where
  "is_digit c = (let n = (of_char c :: nat) in 48 \<le> n \<and> n \<le> 57)"

definition two_decimal_places :: "string \<Rightarrow> bool" where
  "two_decimal_places s =
     (let n = length s
      in 4 \<le> n \<and> list_all is_digit (take (n - 3) s) \<and> s ! (n - 3) = CHR ''.'' \<and>
         list_all is_digit (drop (n - 2) s))"

section \<open>Example inputs\<close>

text \<open>
  A runtime for the examples. \<open>JSON_parse\<close> is given on the texts the examples
  send: \<^verbatim>\<open>null\<close> parses to null, and the empty text and \<^verbatim>\<open>{oops\<close> are not JSON.
  \<open>parseFloat\<close> is exact on numbers (a number converts to a text that parses back to
  it), on undefined, null and booleans (their texts start with no number) and on the
  string \<^verbatim>\<open>Infinity\<close>; the examples pass it nothing else. \<open>ToString\<close> gives the text
  of a plain object; the examples test the pattern on strings only, which are not
  converted. \<open>Number_toString\<close> is the text of \<open>10 ^ 21\<close>; the examples format no
  number that large.
\<close>

definition example_parseFloat :: "jsval \<Rightarrow> jsval + jsnum" where
  "example_parseFloat v =
     (case v of
        JNum n \<Rightarrow> Inr n
      | JStr s \<Rightarrow> Inr (if s = ''Infinity'' then NumInf else NumNaN)
      | _ \<Rightarrow> Inr NumNaN)"

definition example_ToString :: "jsval \<Rightarrow> jsval + string" where
  "example_ToString v = Inr ''[object Object]''"

definition example_Number_toString :: "rat \<Rightarrow> string" where
  "example_Number_toString x = ''1e+21''"

definition example_type_error_message :: "jsval \<Rightarrow> string \<Rightarrow> string" where
  "example_type_error_message v k =
     (if v = JNull then ''Cannot read properties of null (reading '' @ k @ '')''
      else if v = JUndefined then ''Cannot read properties of undefined (reading '' @ k @ '')''
      else k @ '' is not a function'')"

definition example_runtime :: runtime where
  "example_runtime =
     \<lparr>JSON_parse = (\<lambda>s. if s = ''null'' then Some JNull else None),
      parseFloat = example_parseFloat,
      ToString = example_ToString,
      Number_toString = example_Number_toString,
      stack_trace = (\<lambda>msg. JStr (''Error: '' @ msg)),
      type_error_message = example_type_error_message\<rparr>"

text \<open>Environments: nothing set; the credentials set; the credentials set in production mode.\<close>

definition empty_env :: env where
  "empty_env = map_of []"

definition configured_env :: env where
  "configured_env =
     map_of [(''PAYPAL_CLIENT_ID'', ''client-id''), (''PAYPAL_SECRET'', ''client-secret'')]"

definition production_env :: env where
  "production_env =
     map_of [(''PAYPAL_CLIENT_ID'', ''client-id''), (''PAYPAL_SECRET'', ''client-secret''),
             (''NODE_ENV'', ''production'')]"

text \<open>Request bodies, already parsed by the platform.\<close>

definition create_negative_body :: jsval where
  "create_negative_body =
     JObj [(''action'', JStr ''createOrder''),
           (''data'', JObj [(''amount'', JNum (NumFin (- 1)))])]"

definition create_five_body :: jsval where
  "create_five_body =
     JObj [(''action'', JStr ''createOrder''),
           (''data'', JObj [(''amount'', JNum (NumFin 5))])]"

definition create_infinite_body :: jsval where
  "create_infinite_body =
     JObj [(''action'', JStr ''createOrder''),
           (''data'', JObj [(''amount'', JStr ''Infinity'')])]"


definition refund_body :: jsval where
  "refund_body =
     JObj [(''action'', JStr ''refundOrder''),
           (''data'', JObj [(''orderId'', JStr ''5O190127TN364715T'')])]"

text \<open>A replacement for \<open>JSON_parse\<close> that accepts nothing.\<close>

definition no_parse :: "string \<Rightarrow> jsval option" where
  "no_parse s = None"

text \<open>
  Vendors: one that rejects every call with an error that has a status code and an
  empty message, one that rejects every call with null, one whose created order
  carries only a \<open>self\<close> link, and one whose created order carries no links.
\<close>

definition silent_error :: jsval where
  "silent_error =
     JObj [(''statusCode'', JNum (NumFin 503)), (''message'', JStr []),
           (''stack'', JStr ''Error'')]"

definition rejecting_sdk :: sdk where
  "rejecting_sdk client request = Inl silent_error"

definition null_rejecting_sdk :: sdk where
  "null_rejecting_sdk client request = Inl JNull"

definition self_link_response :: jsval where
  "self_link_response =
     JObj [(''result'',
        JObj [(''id'', JStr ''5O190127TN364715T''),
              (''status'', JStr ''CREATED''),
              (''links'',
                 JArr [JObj [(''href'',
                          JStr ''https://api.sandbox.paypal.com/v2/checkout/orders/5O190127TN364715T''),
                        (''rel'', JStr ''self''),
                        (''method'', JStr ''GET'')]])])]"

definition self_link_sdk :: sdk where
  "self_link_sdk client request = Inr self_link_response"

definition no_links_response :: jsval where
  "no_links_response =
     JObj [(''result'',
        JObj [(''id'', JStr ''5O190127TN364715T''), (''status'', JStr ''CREATED'')])]"

definition no_links_sdk :: sdk where
  "no_links_sdk client request = Inr no_links_response"

section \<open>Steps of the handler\<close>

lemma truthy_prop_not_nullish: "truthy (prop_of v k) \<Longrightarrow> \<not> nullish v"
  by (cases v) simp_all

text \<open>The errors the program and the runtime create are objects without a statusCode.\<close>

lemma new_Error_props:
  "\<not> nullish (new_Error rt msg)"
  "prop_of (new_Error rt msg) ''statusCode'' = JUndefined"
  "prop_of (new_Error rt msg) ''message'' = JStr msg"
  "prop_of (new_Error rt msg) ''stack'' = stack_trace rt msg"
  by (simp_all add: new_Error_def)

lemma TypeError_props:
  "\<not> nullish (TypeError rt v k)"
  "prop_of (TypeError rt v k) ''statusCode'' = JUndefined"
  "prop_of (TypeError rt v k) ''message'' = JStr (type_error_message rt v k)"
  "prop_of (TypeError rt v k) ''stack'' = stack_trace rt (type_error_message rt v k)"
  by (simp_all add: TypeError_def)

text \<open>The handler's result, from the result of the \<^verbatim>\<open>try\<close> body.\<close>

lemma module_exports_of_try:
  "try_block rt penv execute body = (calls, Inr r) \<Longrightarrow>
   module_exports rt penv execute body =
     \<lparr>sdk_calls = calls, error_log = [], response = Some r\<rparr>"
  "try_block rt penv execute body = (calls, Inl e) \<Longrightarrow> \<not> nullish e \<Longrightarrow>
   module_exports rt penv execute body =
     \<lparr>sdk_calls = calls, error_log = [e], response = Some (catch_response penv e)\<rparr>"
  "try_block rt penv execute body = (calls, Inl e) \<Longrightarrow> nullish e \<Longrightarrow>
   module_exports rt penv execute body =
     \<lparr>sdk_calls = calls, error_log = [e], response = None\<rparr>"
  by (simp_all add: module_exports_def catch_block_def)

lemma module_exports_returned:
  "snd (try_block rt penv execute body) = Inr r \<Longrightarrow>
   module_exports rt penv execute body =
     \<lparr>sdk_calls = fst (try_block rt penv execute body), error_log = [], response = Some r\<rparr>"
  by (cases "try_block rt penv execute body") (simp add: module_exports_def)

lemma module_exports_caught:
  "snd (try_block rt penv execute body) = Inl e \<Longrightarrow> \<not> nullish e \<Longrightarrow>
   module_exports rt penv execute body =
     \<lparr>sdk_calls = fst (try_block rt penv execute body), error_log = [e],
      response = Some (catch_response penv e)\<rparr>"
  by (cases "try_block rt penv execute body") (simp add: module_exports_def catch_block_def)

text \<open>
  When the caught value is null or undefined the \<^verbatim>\<open>catch\<close> block throws: the value
  is logged and no response is produced.
\<close>

lemma module_exports_unanswered:
  "snd (try_block rt penv execute body) = Inl e \<Longrightarrow> nullish e \<Longrightarrow>
   module_exports rt penv execute body =
     \<lparr>sdk_calls = fst (try_block rt penv execute body), error_log = [e], response = None\<rparr>"
  by (cases "try_block rt penv execute body") (simp add: module_exports_def catch_block_def)

text \<open>
  Once the body is present, parsed and carries a truthy action and data, the handler
  loads the credentials and only then looks at the action.
\<close>

lemma try_block_dispatch:
  assumes "truthy body" and "parse_payload rt body = Some payload"
    and "truthy (prop_of payload ''action'')" and "truthy (prop_of payload ''data'')"
  shows "try_block rt penv execute body =
     (case createPayPalClient rt penv of
        Inl e \<Rightarrow> ([], Inl e)
      | Inr paypalClient \<Rightarrow>
          if prop_of payload ''action'' = JStr ''createOrder''
          then createOrder_branch rt execute paypalClient payload
          else if prop_of payload ''action'' = JStr ''captureOrder''
          then captureOrder_branch rt execute paypalClient payload
          else ([], Inr (error_envelope 400 ''Unsupported action'')))"
  using assms truthy_prop_not_nullish [of payload "''action''"]
  by (simp add: try_block_def)

lemma createPayPalClient_configured:
  assumes "env_truthy (penv ''PAYPAL_CLIENT_ID'')" and "env_truthy (penv ''PAYPAL_SECRET'')"
  shows "\<exists>paypalClient. createPayPalClient rt penv = Inr paypalClient"
  using assms
  by (cases "penv ''PAYPAL_CLIENT_ID''"; cases "penv ''PAYPAL_SECRET''")
     (simp_all add: createPayPalClient_def)

lemma createPayPalClient_unconfigured:
  assumes "\<not> env_truthy (penv ''PAYPAL_CLIENT_ID'') \<or> \<not> env_truthy (penv ''PAYPAL_SECRET'')"
  shows "createPayPalClient rt penv = Inl (new_Error rt ''PayPal credentials not configured'')"
  using assms
  by (cases "penv ''PAYPAL_CLIENT_ID''"; cases "penv ''PAYPAL_SECRET''")
     (auto simp: createPayPalClient_def)

text \<open>A rejection of the awaited SDK call is thrown out of the \<^verbatim>\<open>try\<close> body.\<close>

lemma rejected_create_throws:
  assumes "truthy body" and "parse_payload rt body = Some payload"
    and "prop_of payload ''action'' = JStr ''createOrder''"
    and "truthy (prop_of payload ''data'')"
    and "parseFloat rt (prop_of (prop_of payload ''data'') ''amount'') = Inr amount"
    and "\<not> isNaN amount" and "\<not> le_zero amount"
    and "createPayPalClient rt penv = Inr paypalClient"
    and "createRequest =
           OrdersCreateRequest ''return=representation'' (create_body rt payload amount)"
    and "execute paypalClient createRequest = Inl rejection"
  shows "try_block rt penv execute body = ([(paypalClient, createRequest)], Inl rejection)"
proof -
  have "try_block rt penv execute body = createOrder_branch rt execute paypalClient payload"
    using assms(1-4,8) by (simp add: try_block_dispatch)
  also have "\<dots> = ([(paypalClient, createRequest)], Inl rejection)"
    using assms(5-7,9,10) by (simp add: createOrder_branch_def Let_def and_then_def)
  finally show ?thesis .
qed

lemma rejected_capture_throws:
  assumes "truthy body" and "parse_payload rt body = Some payload"
    and "prop_of payload ''action'' = JStr ''captureOrder''"
    and "truthy (prop_of payload ''data'')"
    and "order_id = prop_of (prop_of payload ''data'') ''orderId''"
    and "truthy order_id" and "regex_test rt order_id = Inr True"
    and "createPayPalClient rt penv = Inr paypalClient"
    and "captureRequest = OrdersCaptureRequest order_id (JObj [])"
    and "execute paypalClient captureRequest = Inl rejection"
  shows "try_block rt penv execute body = ([(paypalClient, captureRequest)], Inl rejection)"
proof -
  have "try_block rt penv execute body = captureOrder_branch rt execute paypalClient payload"
    using assms(1-4,8) by (simp add: try_block_dispatch)
  also have "\<dots> = ([(paypalClient, captureRequest)], Inl rejection)"
    using assms(5-7,9,10) by (simp add: captureOrder_branch_def Let_def and_then_def)
  finally show ?thesis .
qed

text \<open>
  Every value thrown out of the \<^verbatim>\<open>try\<close> body is a TypeError of a property read, one
  of the three errors the program creates, a value thrown by a conversion inside
  \<^verbatim>\<open>parseFloat\<close> or the pattern test, or the value the SDK call rejected with.
\<close>

lemma find_approve_error_origin:
  "find_approve rt links = Inl error \<Longrightarrow> \<exists>v k. error = TypeError rt v k"
  by (induction links) (auto split: if_splits)

lemma create_result_error_origin:
  assumes "create_result rt createResponse = Inl error"
  shows "(\<exists>v k. error = TypeError rt v k) \<or>
         error = new_Error rt ''Missing approval URL in PayPal response''"
  using assms
  by (auto simp: create_result_def and_then_def read_prop_def links_find_def
        split: sum.splits if_splits jsval.splits dest: find_approve_error_origin)

lemma capture_result_error_origin:
  assumes "capture_result rt captureResponse = Inl error"
  shows "error = new_Error rt ''Incomplete capture response from PayPal''"
  using assms by (auto simp: capture_result_def Let_def split: if_splits)

lemma createOrder_branch_error_origin:
  assumes "snd (createOrder_branch rt execute paypalClient payload) = Inl error"
  shows "(\<exists>v k. error = TypeError rt v k) \<or>
         error = new_Error rt ''Missing approval URL in PayPal response'' \<or>
         (\<exists>v. parseFloat rt v = Inl error) \<or>
         (\<exists>client request. execute client request = Inl error)"
  using assms
  by (auto simp: createOrder_branch_def Let_def and_then_def
        split: sum.splits if_splits dest: create_result_error_origin)

lemma regex_test_error_origin:
  "regex_test rt x = Inl error \<Longrightarrow> \<exists>v. ToString rt v = Inl error"
  by (auto simp: regex_test_def and_then_def split: jsval.splits sum.splits)

lemma captureOrder_branch_error_origin:
  assumes "snd (captureOrder_branch rt execute paypalClient payload) = Inl error"
  shows "error = new_Error rt ''Incomplete capture response from PayPal'' \<or>
         (\<exists>v. ToString rt v = Inl error) \<or>
         (\<exists>client request. execute client request = Inl error)"
  using assms
  by (auto simp: captureOrder_branch_def Let_def and_then_def
        split: sum.splits if_splits
        dest: capture_result_error_origin regex_test_error_origin)

lemma createPayPalClient_error_origin:
  "createPayPalClient rt penv = Inl error \<Longrightarrow>
   error = new_Error rt ''PayPal credentials not configured''"
  by (auto simp: createPayPalClient_def split: option.splits if_splits)

lemma thrown_error_origin:
  assumes "snd (try_block rt penv execute body) = Inl error"
  shows "(\<exists>v k. error = TypeError rt v k) \<or>
         error = new_Error rt ''PayPal credentials not configured'' \<or>
         error = new_Error rt ''Missing approval URL in PayPal response'' \<or>
         error = new_Error rt ''Incomplete capture response from PayPal'' \<or>
         (\<exists>v. parseFloat rt v = Inl error) \<or>
         (\<exists>v. ToString rt v = Inl error) \<or>
         (\<exists>client request. execute client request = Inl error)"
proof -
  consider
      (payload) payload where "error = TypeError rt payload ''action''"
    | (client) "createPayPalClient rt penv = Inl error"
    | (create) paypalClient payload where
        "snd (createOrder_branch rt execute paypalClient payload) = Inl error"
    | (capture) paypalClient payload where
        "snd (captureOrder_branch rt execute paypalClient payload) = Inl error"
    using assms
    by (auto simp: try_block_def split: if_splits option.splits sum.splits)
  then show ?thesis
  proof cases
    case payload
    then show ?thesis by blast
  next
    case client
    then show ?thesis by (simp add: createPayPalClient_error_origin)
  next
    case create
    then show ?thesis using createOrder_branch_error_origin by blast
  next
    case capture
    then show ?thesis using captureOrder_branch_error_origin by blast
  qed
qed

section \<open>The shape of a response\<close>

lemma create_result_shape:
  "create_result rt resp = Inr r \<Longrightarrow> \<exists>d. r = JObj [(''status'', JStr ''success''), (''data'', d)]"
  by (auto simp: create_result_def and_then_def read_prop_def split: sum.splits if_splits)

lemma capture_result_shape:
  "capture_result rt resp = Inr r \<Longrightarrow> \<exists>d. r = JObj [(''status'', JStr ''success''), (''data'', d)]"
  by (auto simp: capture_result_def Let_def split: if_splits)

lemma createOrder_branch_shape:
  "snd (createOrder_branch rt execute c payload) = Inr r \<Longrightarrow>
   (\<exists>m. r = error_envelope 400 m) \<or> (\<exists>d. r = JObj [(''status'', JStr ''success''), (''data'', d)])"
  by (auto simp: createOrder_branch_def Let_def and_then_def split: if_splits sum.splits
           dest: create_result_shape)

lemma captureOrder_branch_shape:
  "snd (captureOrder_branch rt execute c payload) = Inr r \<Longrightarrow>
   (\<exists>m. r = error_envelope 400 m) \<or> (\<exists>d. r = JObj [(''status'', JStr ''success''), (''data'', d)])"
  by (auto simp: captureOrder_branch_def Let_def and_then_def split: if_splits sum.splits
           dest: capture_result_shape)

lemma try_block_shape:
  "snd (try_block rt penv execute body) = Inr r \<Longrightarrow>
   (\<exists>m. r = error_envelope 400 m) \<or> (\<exists>d. r = JObj [(''status'', JStr ''success''), (''data'', d)])"
  unfolding try_block_def
  by (auto split: if_splits option.splits sum.splits
           dest: createOrder_branch_shape captureOrder_branch_shape)

section \<open>The handler does not depend on the parser when the body is not a string\<close>

lemma new_Error_parse_free: "new_Error (rt\<lparr>JSON_parse := p\<rparr>) msg = new_Error rt msg"
  by (simp add: new_Error_def)

lemma TypeError_parse_free: "TypeError (rt\<lparr>JSON_parse := p\<rparr>) v k = TypeError rt v k"
  by (simp add: TypeError_def)

lemma find_approve_parse_free:
  "find_approve (rt\<lparr>JSON_parse := p\<rparr>) links = find_approve rt links"
  by (induction links) (simp_all add: TypeError_parse_free)

lemma read_prop_parse_free: "read_prop (rt\<lparr>JSON_parse := p\<rparr>) v k = read_prop rt v k"
  by (simp add: read_prop_def TypeError_parse_free)

lemma links_find_parse_free: "links_find (rt\<lparr>JSON_parse := p\<rparr>) links = links_find rt links"
  by (cases links) (simp_all add: links_find_def TypeError_parse_free find_approve_parse_free)

lemma create_result_parse_free:
  "create_result (rt\<lparr>JSON_parse := p\<rparr>) = create_result rt"
  by (rule ext)
     (simp add: create_result_def read_prop_parse_free links_find_parse_free
        new_Error_parse_free cong: if_cong)

lemma capture_result_parse_free:
  "capture_result (rt\<lparr>JSON_parse := p\<rparr>) = capture_result rt"
  by (rule ext) (simp add: capture_result_def new_Error_parse_free cong: if_cong)

lemma toFixed_parse_free: "toFixed (rt\<lparr>JSON_parse := p\<rparr>) a fd = toFixed rt a fd"
  by (cases a) (simp_all add: toFixed_def)

lemma createOrder_branch_parse_free:
  "createOrder_branch (rt\<lparr>JSON_parse := p\<rparr>) = createOrder_branch rt"
  by (intro ext)
     (simp add: createOrder_branch_def create_body_def create_result_parse_free
        toFixed_parse_free Let_def split: sum.splits)

lemma regex_test_parse_free: "regex_test (rt\<lparr>JSON_parse := p\<rparr>) x = regex_test rt x"
  by (cases x) (simp_all add: regex_test_def)

lemma captureOrder_branch_parse_free:
  "captureOrder_branch (rt\<lparr>JSON_parse := p\<rparr>) = captureOrder_branch rt"
  by (intro ext)
     (simp add: captureOrder_branch_def regex_test_parse_free capture_result_parse_free
        Let_def split: sum.splits)

lemma createPayPalClient_parse_free:
  "createPayPalClient (rt\<lparr>JSON_parse := p\<rparr>) = createPayPalClient rt"
  by (intro ext) (simp add: createPayPalClient_def new_Error_parse_free split: option.splits)

lemma catch_block_parse_free:
  "catch_block (rt\<lparr>JSON_parse := p\<rparr>) = catch_block rt"
  by (intro ext) (simp add: catch_block_def TypeError_parse_free)

lemma parse_payload_not_string:
  "\<forall>s. body \<noteq> JStr s \<Longrightarrow> parse_payload rt body = Some body"
  by (cases body) (simp_all add: parse_payload_def)

section \<open>A created order without an approval link\<close>

lemma find_approve_result:
  assumes "\<forall>link \<in> set links. \<not> nullish link"
  shows "find_approve rt links = Inr JUndefined \<or>
         (\<exists>link \<in> set links. prop_of link ''rel'' = JStr ''approve'' \<and>
            find_approve rt links = Inr link)"
  using assms by (induction links) auto

lemma create_result_missing_url:
  assumes "prop_of (prop_of createResponse ''result'') ''links'' = JArr links"
    and "\<forall>link \<in> set links. \<not> nullish link"
    and "\<forall>link \<in> set links.
           \<not> (prop_of link ''rel'' = JStr ''approve'' \<and> truthy (prop_of link ''href''))"
  shows "create_result rt createResponse =
           Inl (new_Error rt ''Missing approval URL in PayPal response'')"
proof -
  have r: "\<not> nullish (prop_of createResponse ''result'')"
    using assms(1) by (cases "prop_of createResponse ''result''") simp_all
  then have "\<not> nullish createResponse"
    by (cases createResponse) simp_all
  moreover obtain approvalLink where f: "find_approve rt links = Inr approvalLink"
    and "\<not> truthy (opt_prop approvalLink ''href'')"
    using find_approve_result [OF assms(2), of rt] assms(3)
    by (auto simp: opt_prop_def)
  ultimately show ?thesis
    using r assms(1)
    by (simp add: create_result_def and_then_def read_prop_def links_find_def)
qed

text \<open>
  A success response to a create request is built only from an element of
  \<open>result.links\<close> whose \<open>rel\<close> is \<open>approve\<close> and whose \<open>href\<close> is truthy.
\<close>

lemma find_approve_member:
  "find_approve rt links = Inr link \<Longrightarrow> link \<noteq> JUndefined \<Longrightarrow>
   link \<in> set links \<and> prop_of link ''rel'' = JStr ''approve''"
  by (induction links) (auto split: if_splits)

lemma create_result_success_link:
  assumes "create_result rt createResponse = Inr r"
  shows "\<exists>links link. prop_of (prop_of createResponse ''result'') ''links'' = JArr links \<and>
           link \<in> set links \<and> prop_of link ''rel'' = JStr ''approve'' \<and>
           truthy (prop_of link ''href'')"
proof -
  obtain links approvalLink where
    l: "prop_of (prop_of createResponse ''result'') ''links'' = JArr links"
    and f: "find_approve rt links = Inr approvalLink"
    and t: "truthy (opt_prop approvalLink ''href'')"
    using assms
    by (auto simp: create_result_def and_then_def read_prop_def links_find_def
          split: sum.splits if_splits jsval.splits)
  from t have "approvalLink \<noteq> JUndefined" "truthy (prop_of approvalLink ''href'')"
    by (auto simp: opt_prop_def split: if_splits)
  with find_approve_member [OF f] l show ?thesis by blast
qed

section \<open>The text of a fixed-point number\<close>

lemma digit_char: "k < 10 \<Longrightarrow> is_digit (''0123456789'' ! k)"
proof -
  assume k: "k < 10"
  have "list_all is_digit ''0123456789''"
    by (simp add: is_digit_def)
  then have "\<forall>i < length ''0123456789''. is_digit (''0123456789'' ! i)"
    by (simp only: list_all_length)
  moreover have "k < length ''0123456789''"
    using k by simp
  ultimately show ?thesis
    by blast
qed

lemma decimal_digits: "decimal n \<noteq> [] \<and> list_all is_digit (decimal n)"
proof (induction n rule: decimal.induct)
  case (1 n)
  show ?case
  proof (cases "n < 10")
    case True
    then show ?thesis
      by (subst (1 2) decimal.simps) (simp add: digit_char)
  next
    case False
    with 1 show ?thesis
      by (subst (1 2) decimal.simps) (simp add: digit_char)
  qed
qed

lemma decimal_below_ten: "m < 10 \<Longrightarrow> length (decimal m) = 1"
  by (subst decimal.simps) simp

lemma decimal_below_hundred: "m < 100 \<Longrightarrow> \<not> m < 10 \<Longrightarrow> length (decimal m) = 2"
  by (subst decimal.simps) (simp add: decimal_below_ten)

lemma fraction_two_digits:
  assumes "m < 100"
  shows "length (replicate (2 - length (decimal m)) CHR ''0'' @ decimal m) = 2 \<and>
         list_all is_digit (replicate (2 - length (decimal m)) CHR ''0'' @ decimal m)"
proof -
  have "is_digit CHR ''0''"
    by (simp add: is_digit_def)
  then have "list_all is_digit (replicate (2 - length (decimal m)) CHR ''0'')"
    by (simp add: list_all_iff)
  moreover have "length (decimal m) = 1 \<or> length (decimal m) = 2"
    using assms decimal_below_ten decimal_below_hundred by blast
  ultimately show ?thesis
    using decimal_digits [of m] by auto
qed

lemma two_decimal_places_append:
  assumes "whole \<noteq> []" and "list_all is_digit whole"
    and "length fraction = 2" and "list_all is_digit fraction"
  shows "two_decimal_places (whole @ ''.'' @ fraction)"
  using assms by (cases whole) (simp_all add: two_decimal_places_def Let_def nth_append)

text \<open>
  \<open>toFixed(2)\<close> of a finite value that is not negative and is below \<open>10 ^ 21\<close> has
  exactly two decimal places.
\<close>

lemma toFixed_two_decimal_places:
  assumes "0 \<le> x" and "x < 10 ^ 21"
  shows "two_decimal_places (toFixed rt (NumFin x) 2)"
proof -
  define n where "n = nat \<lfloor>x * 10 ^ 2 + 1 / 2\<rfloor>"
  have m: "n mod 10 ^ 2 < 100"
    by simp
  have "toFixed rt (NumFin x) 2 = fixed_digits x 2"
    using assms by (simp add: toFixed_def)
  also have "\<dots> = decimal (n div 10 ^ 2) @ ''.'' @
      (replicate (2 - length (decimal (n mod 10 ^ 2))) CHR ''0'' @ decimal (n mod 10 ^ 2))"
    by (simp add: fixed_digits_def Let_def n_def)
  finally show ?thesis
    using two_decimal_places_append [OF decimal_digits [THEN conjunct1]
        decimal_digits [THEN conjunct2] fraction_two_digits [OF m, THEN conjunct1]
        fraction_two_digits [OF m, THEN conjunct2], of "n div 10 ^ 2"]
    by simp
qed

lemma Infinity_not_two_decimal_places: "\<not> two_decimal_places ''Infinity''"
  by (simp add: two_decimal_places_def Let_def is_digit_def)

section \<open>Facts about the example inputs\<close>

lemma empty_env_unset: "empty_env k = None"
  by (simp add: empty_env_def)

lemma configured_env_credentials:
  "env_truthy (configured_env ''PAYPAL_CLIENT_ID'')"
  "env_truthy (configured_env ''PAYPAL_SECRET'')"
  by (simp_all add: configured_env_def)

lemma configured_env_client:
  "createPayPalClient example_runtime configured_env =
     Inr (PayPalHttpClient (SandboxEnvironment ''client-id'' ''client-secret''))"
  by (simp add: createPayPalClient_def configured_env_def)

lemma configured_env_mode: "configured_env ''NODE_ENV'' = None"
  by (simp add: configured_env_def)

lemma production_env_facts:
  "createPayPalClient example_runtime production_env =
     Inr (PayPalHttpClient (SandboxEnvironment ''client-id'' ''client-secret''))"
  "production_env ''NODE_ENV'' = Some ''production''"
  by (simp_all add: createPayPalClient_def production_env_def)

lemma create_negative_body_facts:
  "truthy create_negative_body"
  "parse_payload rt create_negative_body = Some create_negative_body"
  "prop_of create_negative_body ''action'' = JStr ''createOrder''"
  "truthy (prop_of create_negative_body ''action'')"
  "truthy (prop_of create_negative_body ''data'')"
  "parseFloat example_runtime (prop_of (prop_of create_negative_body ''data'') ''amount'')
     = Inr (NumFin (- 1))"
  by (simp_all add: create_negative_body_def parse_payload_def example_runtime_def
        example_parseFloat_def)

lemma create_five_body_facts:
  "truthy create_five_body"
  "parse_payload rt create_five_body = Some create_five_body"
  "prop_of create_five_body ''action'' = JStr ''createOrder''"
  "truthy (prop_of create_five_body ''action'')"
  "truthy (prop_of create_five_body ''data'')"
  "parseFloat example_runtime (prop_of (prop_of create_five_body ''data'') ''amount'')
     = Inr (NumFin 5)"
  "prop_of (prop_of create_five_body ''data'') ''currency'' = JUndefined"
  by (simp_all add: create_five_body_def parse_payload_def example_runtime_def
        example_parseFloat_def)

lemma create_infinite_body_facts:
  "truthy create_infinite_body"
  "parse_payload rt create_infinite_body = Some create_infinite_body"
  "prop_of create_infinite_body ''action'' = JStr ''createOrder''"
  "truthy (prop_of create_infinite_body ''action'')"
  "truthy (prop_of create_infinite_body ''data'')"
  "parseFloat example_runtime (prop_of (prop_of create_infinite_body ''data'') ''amount'')
     = Inr NumInf"
  "prop_of (prop_of create_infinite_body ''data'') ''currency'' = JUndefined"
  by (simp_all add: create_infinite_body_def parse_payload_def example_runtime_def
        example_parseFloat_def)


lemma refund_body_facts:
  "truthy refund_body"
  "parse_payload rt refund_body = Some refund_body"
  "prop_of refund_body ''action'' = JStr ''refundOrder''"
  "truthy (prop_of refund_body ''action'')"
  "truthy (prop_of refund_body ''data'')"
  by (simp_all add: refund_body_def parse_payload_def)


lemma five_toFixed: "toFixed rt (NumFin 5) 2 = ''5.00''"
proof -
  have "fixed_digits 5 2 = ''5.00''"
    by code_simp
  then show ?thesis
    by (simp add: toFixed_def)
qed

text \<open>With nothing set in the environment, a request that reaches the credentials fails there.\<close>

lemma unconfigured_throws:
  assumes "truthy body" and "parse_payload rt body = Some body"
    and "truthy (prop_of body ''action'')" and "truthy (prop_of body ''data'')"
  shows "module_exports rt empty_env execute body =
     \<lparr>sdk_calls = [],
      error_log = [new_Error rt ''PayPal credentials not configured''],
      response = Some
        (JObj [(''status'', JStr ''error''), (''code'', JNum (NumFin 500)),
               (''message'', JStr ''PayPal credentials not configured''),
               (''debug'', stack_trace rt ''PayPal credentials not configured'')])\<rparr>"
proof -
  have "createPayPalClient rt empty_env =
      Inl (new_Error rt ''PayPal credentials not configured'')"
    by (simp add: createPayPalClient_unconfigured empty_env_unset)
  then have "try_block rt empty_env execute body =
      ([], Inl (new_Error rt ''PayPal credentials not configured''))"
    using assms by (simp add: try_block_dispatch)
  then show ?thesis
    by (simp add: module_exports_of_try catch_response_def new_Error_props js_or_def
          empty_env_unset)
qed

text \<open>The create request for an amount of 5, when the vendor rejects the call.\<close>

lemma rejected_five_throws:
  assumes "createPayPalClient example_runtime penv = Inr paypalClient"
    and "execute paypalClient (OrdersCreateRequest ''return=representation''
           (create_body example_runtime create_five_body (NumFin 5))) = Inl rejection"
  shows "snd (try_block example_runtime penv execute create_five_body) = Inl rejection"
proof -
  have "try_block example_runtime penv execute create_five_body =
      ([(paypalClient, OrdersCreateRequest ''return=representation''
           (create_body example_runtime create_five_body (NumFin 5)))], Inl rejection)"
    by (rule rejected_create_throws [where amount = "NumFin 5"])
       (simp_all add: create_five_body_facts assms)
  then show ?thesis by simp
qed

lemma silent_error_props:
  "\<not> nullish silent_error"
  "prop_of silent_error ''statusCode'' = JNum (NumFin 503)"
  "prop_of silent_error ''message'' = JStr []"
  "prop_of silent_error ''stack'' = JStr ''Error''"
  by (simp_all add: silent_error_def)

section \<open>C1: the response envelope\<close>

text \<open>
  C1, as stated, fails: with no credentials configured and \<open>NODE_ENV\<close> unset, the
  response to a create request has a field outside status, code, message and data
  (the \<open>debug\<close> field of the catch block).
\<close>

theorem debug_field_counterexample:
  "response (module_exports example_runtime empty_env rejecting_sdk create_five_body) =
     Some (JObj [(''status'', JStr ''error''), (''code'', JNum (NumFin 500)),
                 (''message'', JStr ''PayPal credentials not configured''),
                 (''debug'', JStr ''Error: PayPal credentials not configured'')]) \<and>
   \<not> set (keys (JObj [(''status'', JStr ''error''), (''code'', JNum (NumFin 500)),
                 (''message'', JStr ''PayPal credentials not configured''),
                 (''debug'', JStr ''Error: PayPal credentials not configured'')]))
       \<subseteq> {''status'', ''code'', ''message'', ''data''}"
proof -
  have "stack_trace example_runtime ''PayPal credentials not configured'' =
      JStr ''Error: PayPal credentials not configured''"
    by (simp add: example_runtime_def)
  then show ?thesis
    by (simp add: unconfigured_throws create_five_body_facts keys_def)
qed

text \<open>
  C1, amended: every response the handler produces, for every runtime, environment,
  vendor behaviour and body, is an object with a \<open>status\<close> field and fields among
  status, code, message, data and debug. An error response carries code and message and
  no data; a success response carries exactly status and data. The \<open>debug\<close> field
  appears only when \<open>NODE_ENV\<close> is not \<open>production\<close> and a thrown value was caught.
  The one run that produces no response is the one in which the caught value is null or
  undefined.
\<close>

theorem response_envelope:
  "let run = module_exports rt penv execute body
   in (\<forall>r. response run = Some r \<longrightarrow>
         (\<exists>kvs. r = JObj kvs) \<and>
         ''status'' \<in> set (keys r) \<and>
         set (keys r) \<subseteq> {''status'', ''code'', ''message'', ''data'', ''debug''} \<and>
         (prop_of r ''status'' = JStr ''error'' \<and>
            ''code'' \<in> set (keys r) \<and> ''message'' \<in> set (keys r) \<and>
            ''data'' \<notin> set (keys r)
          \<or> prop_of r ''status'' = JStr ''success'' \<and> keys r = [''status'', ''data'']) \<and>
         (''debug'' \<in> set (keys r) \<longrightarrow>
            penv ''NODE_ENV'' \<noteq> Some ''production'' \<and> error_log run \<noteq> [])) \<and>
      (response run = None \<longrightarrow> (\<exists>e. nullish e \<and> error_log run = [e]))"
proof (cases "snd (try_block rt penv execute body)")
  case (Inl e)
  show ?thesis
  proof (cases "nullish e")
    case True
    with Inl have "module_exports rt penv execute body =
        \<lparr>sdk_calls = fst (try_block rt penv execute body), error_log = [e],
         response = None\<rparr>"
      by (rule module_exports_unanswered)
    with True show ?thesis by simp
  next
    case False
    with Inl have "module_exports rt penv execute body =
        \<lparr>sdk_calls = fst (try_block rt penv execute body), error_log = [e],
         response = Some (catch_response penv e)\<rparr>"
      by (rule module_exports_caught)
    then show ?thesis
      by (cases "penv ''NODE_ENV'' = Some ''production''")
         (auto simp: catch_response_def keys_def)
  qed
next
  case (Inr r)
  then have run: "module_exports rt penv execute body =
      \<lparr>sdk_calls = fst (try_block rt penv execute body), error_log = [],
       response = Some r\<rparr>"
    by (rule module_exports_returned)
  from Inr try_block_shape consider m where "r = error_envelope 400 m"
    | d where "r = JObj [(''status'', JStr ''success''), (''data'', d)]"
    by blast
  then show ?thesis
  proof cases
    case 1
    with run show ?thesis by (auto simp: error_envelope_def keys_def)
  next
    case 2
    with run show ?thesis by (auto simp: keys_def)
  qed
qed

text \<open>C1 at the unconfigured create request, where the \<open>debug\<close> field is present.\<close>

theorem response_envelope_witness:
  "response (module_exports example_runtime empty_env rejecting_sdk create_five_body) =
     Some (JObj [(''status'', JStr ''error''), (''code'', JNum (NumFin 500)),
                 (''message'', JStr ''PayPal credentials not configured''),
                 (''debug'', stack_trace example_runtime
                    ''PayPal credentials not configured'')]) \<and>
   empty_env ''NODE_ENV'' \<noteq> Some ''production'' \<and>
   error_log (module_exports example_runtime empty_env rejecting_sdk create_five_body) \<noteq> []"
proof -
  have h: "response (module_exports example_runtime empty_env rejecting_sdk
      create_five_body) =
     Some (JObj [(''status'', JStr ''error''), (''code'', JNum (NumFin 500)),
                 (''message'', JStr ''PayPal credentials not configured''),
                 (''debug'', stack_trace example_runtime
                    ''PayPal credentials not configured'')])"
    by (simp add: unconfigured_throws create_five_body_facts)
  show ?thesis
    using h response_envelope [of example_runtime empty_env rejecting_sdk create_five_body]
    by (simp add: Let_def keys_def)
qed

section \<open>C2: the catch block\<close>

text \<open>
  C2, as stated, fails at two vendors. When the vendor rejects the create call with an
  error whose message is empty, the error is thrown out of the \<^verbatim>\<open>try\<close> body and the
  response's message is \<open>Internal server error\<close>, not the error's message. When the
  vendor rejects the call with null, the \<^verbatim>\<open>catch\<close> block throws on reading
  \<open>statusCode\<close> and no response is returned.
\<close>

theorem error_message_counterexample:
  "snd (try_block example_runtime configured_env rejecting_sdk create_five_body) =
     Inl silent_error \<and>
   prop_of silent_error ''message'' = JStr [] \<and>
   response (module_exports example_runtime configured_env rejecting_sdk create_five_body) =
     Some (JObj [(''status'', JStr ''error''), (''code'', JNum (NumFin 503)),
                 (''message'', JStr ''Internal server error''),
                 (''debug'', JStr ''Error'')]) \<and>
   snd (try_block example_runtime configured_env null_rejecting_sdk create_five_body) =
     Inl JNull \<and>
   response (module_exports example_runtime configured_env null_rejecting_sdk
     create_five_body) = None"
proof -
  have t: "snd (try_block example_runtime configured_env rejecting_sdk create_five_body) =
      Inl silent_error"
    using configured_env_client by (rule rejected_five_throws) (simp add: rejecting_sdk_def)
  have n: "snd (try_block example_runtime configured_env null_rejecting_sdk
      create_five_body) = Inl JNull"
    using configured_env_client
    by (rule rejected_five_throws) (simp add: null_rejecting_sdk_def)
  have "response (module_exports example_runtime configured_env rejecting_sdk
      create_five_body) = Some (catch_response configured_env silent_error)"
    using t by (simp add: module_exports_caught silent_error_props)
  moreover have "response (module_exports example_runtime configured_env null_rejecting_sdk
      create_five_body) = None"
    using n by (simp add: module_exports_unanswered)
  ultimately show ?thesis
    using t n
    by (simp add: catch_response_def js_or_def silent_error_props configured_env_mode)
qed

text \<open>
  C2, amended: whenever a value other than null or undefined is thrown out of the
  \<^verbatim>\<open>try\<close> body, the handler logs it and returns an error response whose code is the
  value's statusCode when that is truthy and 500 otherwise, whose message is the value's
  message when that is truthy and \<open>Internal server error\<close> otherwise, and which has a
  \<open>debug\<close> field, holding the value's stack, if and only if \<open>NODE_ENV\<close> is not
  \<open>production\<close>.
\<close>

theorem caught_error_response:
  assumes "snd (try_block rt penv execute body) = Inl error" and "\<not> nullish error"
  shows "\<exists>r. response (module_exports rt penv execute body) = Some r \<and>
           prop_of r ''status'' = JStr ''error'' \<and>
           prop_of r ''code'' =
             (if truthy (prop_of error ''statusCode'') then prop_of error ''statusCode''
              else JNum (NumFin 500)) \<and>
           prop_of r ''message'' =
             (if truthy (prop_of error ''message'') then prop_of error ''message''
              else JStr ''Internal server error'') \<and>
           (''debug'' \<in> set (keys r)) = (penv ''NODE_ENV'' \<noteq> Some ''production'') \<and>
           (if penv ''NODE_ENV'' \<noteq> Some ''production''
            then prop_of r ''debug'' = prop_of error ''stack''
            else keys r = [''status'', ''code'', ''message'']) \<and>
           error_log (module_exports rt penv execute body) = [error]"
proof -
  have "module_exports rt penv execute body =
      \<lparr>sdk_calls = fst (try_block rt penv execute body), error_log = [error],
       response = Some (catch_response penv error)\<rparr>"
    using assms by (rule module_exports_caught)
  then show ?thesis
    by (simp add: catch_response_def js_or_def keys_def)
qed

text \<open>
  C2 in production mode, at the vendor that rejects with status code 503 and an empty
  message: the code is 503, the message is the fallback and there is no \<open>debug\<close> field.
\<close>

theorem caught_error_response_witness:
  "snd (try_block example_runtime production_env rejecting_sdk create_five_body) =
     Inl silent_error \<and>
   \<not> nullish silent_error \<and>
   (\<exists>r. response (module_exports example_runtime production_env rejecting_sdk
            create_five_body) = Some r \<and>
         prop_of r ''status'' = JStr ''error'' \<and>
         prop_of r ''code'' = JNum (NumFin 503) \<and>
         prop_of r ''message'' = JStr ''Internal server error'' \<and>
         keys r = [''status'', ''code'', ''message'']) \<and>
   error_log (module_exports example_runtime production_env rejecting_sdk create_five_body) =
     [silent_error]"
proof -
  have t: "snd (try_block example_runtime production_env rejecting_sdk
      create_five_body) = Inl silent_error"
    using production_env_facts(1)
    by (rule rejected_five_throws) (simp add: rejecting_sdk_def)
  show ?thesis
    using t caught_error_response [OF t silent_error_props(1)]
    by (auto simp: production_env_facts silent_error_props)
qed

section \<open>C3: an invalid amount\<close>

text \<open>
  C3, as stated, fails: a create request with the amount \<open>-1\<close>, sent when no
  credentials are configured, gets the code 500 and not the response
  \<open>Invalid amount specified\<close>.
\<close>

theorem invalid_amount_counterexample:
  "prop_of create_negative_body ''action'' = JStr ''createOrder'' \<and>
   parseFloat example_runtime (prop_of (prop_of create_negative_body ''data'') ''amount'') =
     Inr (NumFin (- 1)) \<and>
   le_zero (NumFin (- 1)) \<and>
   response (module_exports example_runtime empty_env rejecting_sdk create_negative_body) =
     Some (JObj [(''status'', JStr ''error''), (''code'', JNum (NumFin 500)),
                 (''message'', JStr ''PayPal credentials not configured''),
                 (''debug'', JStr ''Error: PayPal credentials not configured'')]) \<and>
   response (module_exports example_runtime empty_env rejecting_sdk create_negative_body) \<noteq>
     Some (JObj [(''status'', JStr ''error''), (''code'', JNum (NumFin 400)),
                 (''message'', JStr ''Invalid amount specified'')])"
proof -
  have "stack_trace example_runtime ''PayPal credentials not configured'' =
      JStr ''Error: PayPal credentials not configured''"
    by (simp add: example_runtime_def)
  then show ?thesis
    by (simp add: create_negative_body_facts unconfigured_throws)
qed

text \<open>
  C3, amended: when the credentials are configured, every request whose payload has the
  action \<open>createOrder\<close> and a truthy \<open>data\<close>, and whose \<open>data.amount\<close> parses to NaN or
  to a value that is at most zero, gets exactly the response with code 400 and message
  \<open>Invalid amount specified\<close>; no SDK call is made and nothing is logged.
\<close>

theorem invalid_amount_rejected:
  assumes "env_truthy (penv ''PAYPAL_CLIENT_ID'')" and "env_truthy (penv ''PAYPAL_SECRET'')"
    and "truthy body" and "parse_payload rt body = Some payload"
    and "prop_of payload ''action'' = JStr ''createOrder''"
    and "truthy (prop_of payload ''data'')"
    and "parseFloat rt (prop_of (prop_of payload ''data'') ''amount'') = Inr amount"
    and "isNaN amount \<or> le_zero amount"
  shows "module_exports rt penv execute body =
     \<lparr>sdk_calls = [], error_log = [],
      response = Some (JObj [(''status'', JStr ''error''), (''code'', JNum (NumFin 400)),
                             (''message'', JStr ''Invalid amount specified'')])\<rparr>"
proof -
  obtain paypalClient where c: "createPayPalClient rt penv = Inr paypalClient"
    using createPayPalClient_configured assms(1,2) by blast
  have "try_block rt penv execute body = createOrder_branch rt execute paypalClient payload"
    using assms(3-6) c by (simp add: try_block_dispatch)
  also have "\<dots> = ([], Inr (error_envelope 400 ''Invalid amount specified''))"
    using assms(7,8) by (auto simp: createOrder_branch_def)
  finally show ?thesis
    by (simp add: module_exports_of_try error_envelope_def)
qed

text \<open>C3 at the create request with the amount \<open>-1\<close>, with the credentials configured.\<close>

theorem invalid_amount_rejected_witness:
  "env_truthy (configured_env ''PAYPAL_CLIENT_ID'') \<and>
   env_truthy (configured_env ''PAYPAL_SECRET'') \<and>
   truthy create_negative_body \<and>
   parse_payload example_runtime create_negative_body = Some create_negative_body \<and>
   prop_of create_negative_body ''action'' = JStr ''createOrder'' \<and>
   truthy (prop_of create_negative_body ''data'') \<and>
   parseFloat example_runtime (prop_of (prop_of create_negative_body ''data'') ''amount'') =
     Inr (NumFin (- 1)) \<and>
   le_zero (NumFin (- 1)) \<and>
   module_exports example_runtime configured_env rejecting_sdk create_negative_body =
     \<lparr>sdk_calls = [], error_log = [],
      response = Some (JObj [(''status'', JStr ''error''), (''code'', JNum (NumFin 400)),
                             (''message'', JStr ''Invalid amount specified'')])\<rparr>"
proof -
  have h: "isNaN (NumFin (- 1)) \<or> le_zero (NumFin (- 1))"
    by simp
  show ?thesis
    using invalid_amount_rejected [where execute = rejecting_sdk,
        OF configured_env_credentials create_negative_body_facts(1,2,3,5,6) h]
    by (simp add: configured_env_credentials create_negative_body_facts)
qed

section \<open>C4: an invalid order ID\<close>




section \<open>C5: a missing action or data\<close>

text \<open>
  A parsed payload that is not null and has a falsy or missing \<open>action\<close> or \<open>data\<close>
  gets the response \<open>Missing action or data parameter\<close>, whatever the environment, and
  no SDK call is made.
\<close>

lemma missing_action_or_data_rejected:
  assumes "truthy body" and "parse_payload rt body = Some payload"
    and "\<not> nullish payload"
    and "\<not> truthy (prop_of payload ''action'') \<or> \<not> truthy (prop_of payload ''data'')"
  shows "module_exports rt penv execute body =
     \<lparr>sdk_calls = [], error_log = [],
      response = Some (JObj [(''status'', JStr ''error''), (''code'', JNum (NumFin 400)),
                             (''message'', JStr ''Missing action or data parameter'')])\<rparr>"
proof -
  have "try_block rt penv execute body =
      ([], Inr (error_envelope 400 ''Missing action or data parameter''))"
    using assms by (auto simp: try_block_def)
  then show ?thesis
    by (simp add: module_exports_of_try error_envelope_def)
qed

text \<open>
  C5 at the body \<^verbatim>\<open>null\<close>: the text is present and parses to null, which has no
  action and no data, and reading \<open>action\<close> of it throws. In every environment the
  handler makes no SDK call, logs the TypeError and returns an error response with the
  code 500, not the response \<open>Missing action or data parameter\<close> with the code 400.
\<close>

theorem null_payload_response:
  assumes "JSON_parse rt ''null'' = Some JNull"
  shows "sdk_calls (module_exports rt penv execute (JStr ''null'')) = [] \<and>
         error_log (module_exports rt penv execute (JStr ''null'')) =
           [TypeError rt JNull ''action''] \<and>
         (\<exists>r. response (module_exports rt penv execute (JStr ''null'')) = Some r \<and>
              prop_of r ''status'' = JStr ''error'' \<and>
              prop_of r ''code'' = JNum (NumFin 500)) \<and>
         response (module_exports rt penv execute (JStr ''null'')) \<noteq>
           Some (JObj [(''status'', JStr ''error''), (''code'', JNum (NumFin 400)),
                       (''message'', JStr ''Missing action or data parameter'')])"
proof -
  have "try_block rt penv execute (JStr ''null'') = ([], Inl (TypeError rt JNull ''action''))"
    using assms by (simp add: try_block_def parse_payload_def)
  then show ?thesis
    by (simp add: module_exports_of_try TypeError_props catch_response_def js_or_def)
qed

text \<open>
  C5 at the body \<^verbatim>\<open>null\<close> in production mode, with the example runtime: the whole
  response.
\<close>

theorem null_payload_response_witness:
  "JSON_parse example_runtime ''null'' = Some JNull \<and>
   truthy (JStr ''null'') \<and>
   \<not> truthy (opt_prop JNull ''action'') \<and>
   sdk_calls (module_exports example_runtime production_env rejecting_sdk (JStr ''null'')) = [] \<and>
   response (module_exports example_runtime production_env rejecting_sdk (JStr ''null'')) =
     Some (JObj [(''status'', JStr ''error''), (''code'', JNum (NumFin 500)),
                 (''message'', JStr ''Cannot read properties of null (reading action)'')])"
proof -
  have p: "JSON_parse example_runtime ''null'' = Some JNull"
    by (simp add: example_runtime_def)
  have "try_block example_runtime production_env rejecting_sdk (JStr ''null'') =
      ([], Inl (TypeError example_runtime JNull ''action''))"
    using p by (simp add: try_block_def parse_payload_def)
  then have r: "response (module_exports example_runtime production_env rejecting_sdk
      (JStr ''null'')) =
     Some (JObj [(''status'', JStr ''error''), (''code'', JNum (NumFin 500)),
                 (''message'', JStr ''Cannot read properties of null (reading action)'')])"
    by (simp add: module_exports_of_try TypeError_props catch_response_def js_or_def
          example_runtime_def example_type_error_message_def production_env_facts)
  show ?thesis
    using p r null_payload_response [OF p, of production_env rejecting_sdk]
    by (simp add: opt_prop_def)
qed

section \<open>C6: a body that is not JSON\<close>

text \<open>
  C6, as stated, fails: the empty string is a string that is not JSON, and the handler
  answers it with \<open>Request body is required\<close>, not with \<open>Invalid JSON format\<close>.
\<close>

theorem empty_body_counterexample:
  "JSON_parse example_runtime [] = None \<and>
   response (module_exports example_runtime configured_env rejecting_sdk (JStr [])) =
     Some (JObj [(''status'', JStr ''error''), (''code'', JNum (NumFin 400)),
                 (''message'', JStr ''Request body is required'')]) \<and>
   response (module_exports example_runtime configured_env rejecting_sdk (JStr [])) \<noteq>
     Some (JObj [(''status'', JStr ''error''), (''code'', JNum (NumFin 400)),
                 (''message'', JStr ''Invalid JSON format'')])"
proof -
  have "try_block example_runtime configured_env rejecting_sdk (JStr []) =
      ([], Inr (error_envelope 400 ''Request body is required''))"
    by (simp add: try_block_def)
  then show ?thesis
    by (simp add: module_exports_of_try error_envelope_def example_runtime_def)
qed

text \<open>
  C6, amended: every request whose body is a non-empty string that is not valid JSON
  gets exactly the response with code 400 and message \<open>Invalid JSON format\<close>, with no
  SDK call; and a body that is not a string is the payload as it is, so that the
  handler's result does not depend on the parser.
\<close>

theorem invalid_json_rejected:
  "(s \<noteq> [] \<and> JSON_parse rt s = None \<longrightarrow>
      module_exports rt penv execute (JStr s) =
        \<lparr>sdk_calls = [], error_log = [],
         response = Some (JObj [(''status'', JStr ''error''), (''code'', JNum (NumFin 400)),
                                (''message'', JStr ''Invalid JSON format'')])\<rparr>) \<and>
   ((\<forall>t. body \<noteq> JStr t) \<longrightarrow>
      parse_payload rt body = Some body \<and>
      (\<forall>p. module_exports (rt\<lparr>JSON_parse := p\<rparr>) penv execute body =
           module_exports rt penv execute body))"
proof (intro conjI allI impI)
  assume "s \<noteq> [] \<and> JSON_parse rt s = None"
  then have "try_block rt penv execute (JStr s) =
      ([], Inr (error_envelope 400 ''Invalid JSON format''))"
    by (simp add: try_block_def parse_payload_def)
  then show "module_exports rt penv execute (JStr s) =
        \<lparr>sdk_calls = [], error_log = [],
         response = Some (JObj [(''status'', JStr ''error''), (''code'', JNum (NumFin 400)),
                                (''message'', JStr ''Invalid JSON format'')])\<rparr>"
    by (simp add: module_exports_of_try error_envelope_def)
next
  assume "\<forall>t. body \<noteq> JStr t"
  then show "parse_payload rt body = Some body"
    by (rule parse_payload_not_string)
next
  fix p
  assume n: "\<forall>t. body \<noteq> JStr t"
  have "try_block (rt\<lparr>JSON_parse := p\<rparr>) penv execute body = try_block rt penv execute body"
    by (simp add: try_block_def parse_payload_not_string [OF n] TypeError_parse_free
          createPayPalClient_parse_free createOrder_branch_parse_free
          captureOrder_branch_parse_free split: sum.splits)
  then show "module_exports (rt\<lparr>JSON_parse := p\<rparr>) penv execute body =
           module_exports rt penv execute body"
    by (simp add: module_exports_def catch_block_parse_free)
qed

text \<open>
  C6 at the body \<^verbatim>\<open>{oops\<close>, and at the parsed create request with a parser that
  accepts nothing.
\<close>

theorem invalid_json_rejected_witness:
  "''{oops'' \<noteq> [] \<and> JSON_parse example_runtime ''{oops'' = None \<and>
   module_exports example_runtime configured_env rejecting_sdk (JStr ''{oops'') =
     \<lparr>sdk_calls = [], error_log = [],
      response = Some (JObj [(''status'', JStr ''error''), (''code'', JNum (NumFin 400)),
                             (''message'', JStr ''Invalid JSON format'')])\<rparr> \<and>
   parse_payload example_runtime create_five_body = Some create_five_body \<and>
   module_exports (example_runtime\<lparr>JSON_parse := no_parse\<rparr>) configured_env rejecting_sdk
       create_five_body =
     module_exports example_runtime configured_env rejecting_sdk create_five_body"
proof -
  have a: "''{oops'' \<noteq> [] \<and> JSON_parse example_runtime ''{oops'' = None"
    by (simp add: example_runtime_def)
  have b: "\<forall>t. create_five_body \<noteq> JStr t"
    by (simp add: create_five_body_def)
  show ?thesis
    using a b
      invalid_json_rejected [where s = "''{oops''" and rt = example_runtime
        and penv = configured_env and execute = rejecting_sdk and body = create_five_body]
    by simp
qed

section \<open>C7: an unsupported action\<close>

text \<open>
  C7, as stated, fails: a request with the action \<open>refundOrder\<close>, sent when no
  credentials are configured, gets the code 500 and not the response
  \<open>Unsupported action\<close>.
\<close>

theorem unsupported_action_counterexample:
  "truthy (prop_of refund_body ''action'') \<and> truthy (prop_of refund_body ''data'') \<and>
   prop_of refund_body ''action'' \<noteq> JStr ''createOrder'' \<and>
   prop_of refund_body ''action'' \<noteq> JStr ''captureOrder'' \<and>
   response (module_exports example_runtime empty_env rejecting_sdk refund_body) =
     Some (JObj [(''status'', JStr ''error''), (''code'', JNum (NumFin 500)),
                 (''message'', JStr ''PayPal credentials not configured''),
                 (''debug'', JStr ''Error: PayPal credentials not configured'')]) \<and>
   response (module_exports example_runtime empty_env rejecting_sdk refund_body) \<noteq>
     Some (JObj [(''status'', JStr ''error''), (''code'', JNum (NumFin 400)),
                 (''message'', JStr ''Unsupported action'')])"
proof -
  have "stack_trace example_runtime ''PayPal credentials not configured'' =
      JStr ''Error: PayPal credentials not configured''"
    by (simp add: example_runtime_def)
  then show ?thesis
    by (simp add: refund_body_facts unconfigured_throws)
qed

text \<open>
  C7, amended: when the credentials are configured, every request whose payload has a
  truthy \<open>action\<close> and a truthy \<open>data\<close>, and whose action is neither the string
  \<open>createOrder\<close> nor the string \<open>captureOrder\<close>, gets exactly the response with code
  400 and message \<open>Unsupported action\<close>; no SDK call is made and nothing is logged.
\<close>

theorem unsupported_action_rejected:
  assumes "env_truthy (penv ''PAYPAL_CLIENT_ID'')" and "env_truthy (penv ''PAYPAL_SECRET'')"
    and "truthy body" and "parse_payload rt body = Some payload"
    and "truthy (prop_of payload ''action'')" and "truthy (prop_of payload ''data'')"
    and "prop_of payload ''action'' \<noteq> JStr ''createOrder''"
    and "prop_of payload ''action'' \<noteq> JStr ''captureOrder''"
  shows "module_exports rt penv execute body =
     \<lparr>sdk_calls = [], error_log = [],
      response = Some (JObj [(''status'', JStr ''error''), (''code'', JNum (NumFin 400)),
                             (''message'', JStr ''Unsupported action'')])\<rparr>"
proof -
  obtain paypalClient where c: "createPayPalClient rt penv = Inr paypalClient"
    using createPayPalClient_configured assms(1,2) by blast
  have "try_block rt penv execute body = ([], Inr (error_envelope 400 ''Unsupported action''))"
    using assms(3-8) c by (simp add: try_block_dispatch)
  then show ?thesis
    by (simp add: module_exports_of_try error_envelope_def)
qed

text \<open>C7 at the request with the action \<open>refundOrder\<close>, with the credentials configured.\<close>

theorem unsupported_action_rejected_witness:
  "env_truthy (configured_env ''PAYPAL_CLIENT_ID'') \<and>
   env_truthy (configured_env ''PAYPAL_SECRET'') \<and>
   truthy refund_body \<and>
   parse_payload example_runtime refund_body = Some refund_body \<and>
   truthy (prop_of refund_body ''action'') \<and> truthy (prop_of refund_body ''data'') \<and>
   prop_of refund_body ''action'' \<noteq> JStr ''createOrder'' \<and>
   prop_of refund_body ''action'' \<noteq> JStr ''captureOrder'' \<and>
   module_exports example_runtime configured_env rejecting_sdk refund_body =
     \<lparr>sdk_calls = [], error_log = [],
      response = Some (JObj [(''status'', JStr ''error''), (''code'', JNum (NumFin 400)),
                             (''message'', JStr ''Unsupported action'')])\<rparr>"
proof -
  have h: "prop_of refund_body ''action'' \<noteq> JStr ''createOrder''"
      "prop_of refund_body ''action'' \<noteq> JStr ''captureOrder''"
    by (simp_all add: refund_body_facts)
  show ?thesis
    using unsupported_action_rejected [where rt = example_runtime
        and execute = rejecting_sdk,
        OF configured_env_credentials refund_body_facts(1,2,4,5) h]
    by (simp add: configured_env_credentials refund_body_facts)
qed

section \<open>C8: the credentials are checked first\<close>

text \<open>
  C8, as stated, fails: with \<open>NODE_ENV\<close> unset, the response to a request that reaches
  the credential check without credentials is not the object with the three fields
  status, code and message alone (it also has the \<open>debug\<close> field).
\<close>

theorem credentials_response_counterexample:
  "truthy create_negative_body \<and>
   parse_payload example_runtime create_negative_body = Some create_negative_body \<and>
   truthy (prop_of create_negative_body ''action'') \<and>
   truthy (prop_of create_negative_body ''data'') \<and>
   \<not> env_truthy (empty_env ''PAYPAL_CLIENT_ID'') \<and>
   response (module_exports example_runtime empty_env rejecting_sdk create_negative_body) \<noteq>
     Some (JObj [(''status'', JStr ''error''), (''code'', JNum (NumFin 500)),
                 (''message'', JStr ''PayPal credentials not configured'')])"
proof -
  have "\<not> env_truthy (empty_env ''PAYPAL_CLIENT_ID'')"
    by (simp add: empty_env_unset)
  then show ?thesis
    by (simp add: create_negative_body_facts unconfigured_throws)
qed

text \<open>
  C8, amended: for every request whose body is present, parses, and carries a truthy
  action and data, if \<open>PAYPAL_CLIENT_ID\<close> or \<open>PAYPAL_SECRET\<close> is unset or empty, the
  handler makes no SDK call and returns the error response with code 500 and message
  \<open>PayPal credentials not configured\<close>, to which the \<open>debug\<close> field with the stack is
  added when \<open>NODE_ENV\<close> is not \<open>production\<close>. Nothing is assumed of the action, the
  amount or the order ID: the check runs before their validations.
\<close>

theorem credentials_checked_first:
  assumes "truthy body" and "parse_payload rt body = Some payload"
    and "truthy (prop_of payload ''action'')" and "truthy (prop_of payload ''data'')"
    and "\<not> env_truthy (penv ''PAYPAL_CLIENT_ID'') \<or> \<not> env_truthy (penv ''PAYPAL_SECRET'')"
  shows "module_exports rt penv execute body =
     \<lparr>sdk_calls = [],
      error_log = [new_Error rt ''PayPal credentials not configured''],
      response = Some
        (JObj ([(''status'', JStr ''error''), (''code'', JNum (NumFin 500)),
                (''message'', JStr ''PayPal credentials not configured'')]
               @ (if penv ''NODE_ENV'' \<noteq> Some ''production''
                  then [(''debug'', stack_trace rt ''PayPal credentials not configured'')]
                  else [])))\<rparr>"
proof -
  have "createPayPalClient rt penv = Inl (new_Error rt ''PayPal credentials not configured'')"
    using assms(5) by (rule createPayPalClient_unconfigured)
  then have "try_block rt penv execute body =
      ([], Inl (new_Error rt ''PayPal credentials not configured''))"
    using assms(1-4) by (simp add: try_block_dispatch)
  then show ?thesis
    by (simp add: module_exports_of_try catch_response_def new_Error_props js_or_def)
qed

text \<open>
  C8 at the create request with the amount \<open>-1\<close> and nothing set in the environment:
  the invalid amount is not reported.
\<close>

theorem credentials_checked_first_witness:
  "truthy create_negative_body \<and>
   parse_payload example_runtime create_negative_body = Some create_negative_body \<and>
   truthy (prop_of create_negative_body ''action'') \<and>
   truthy (prop_of create_negative_body ''data'') \<and>
   \<not> env_truthy (empty_env ''PAYPAL_CLIENT_ID'') \<and>
   parseFloat example_runtime (prop_of (prop_of create_negative_body ''data'') ''amount'') =
     Inr (NumFin (- 1)) \<and>
   module_exports example_runtime empty_env rejecting_sdk create_negative_body =
     \<lparr>sdk_calls = [],
      error_log = [new_Error example_runtime ''PayPal credentials not configured''],
      response = Some
        (JObj [(''status'', JStr ''error''), (''code'', JNum (NumFin 500)),
               (''message'', JStr ''PayPal credentials not configured''),
               (''debug'', JStr ''Error: PayPal credentials not configured'')])\<rparr>"
proof -
  have h: "\<not> env_truthy (empty_env ''PAYPAL_CLIENT_ID'') \<or>
           \<not> env_truthy (empty_env ''PAYPAL_SECRET'')"
    by (simp add: empty_env_unset)
  have u: "\<not> env_truthy (empty_env ''PAYPAL_CLIENT_ID'')"
    and n: "empty_env ''NODE_ENV'' = None"
    by (simp_all add: empty_env_unset)
  have s: "stack_trace example_runtime ''PayPal credentials not configured'' =
      JStr ''Error: PayPal credentials not configured''"
    by (simp add: example_runtime_def)
  show ?thesis
    using credentials_checked_first [where rt = example_runtime
        and execute = rejecting_sdk, OF create_negative_body_facts(1,2,4,5) h]
    by (simp add: create_negative_body_facts u n s)
qed

section \<open>C9: the purchase unit\<close>

text \<open>
  For every create request that passes the checks (credentials configured, a truthy
  \<open>data\<close>, an amount that parses to a number above zero), the handler makes exactly
  one SDK call, a create request whose body has one purchase unit; its
  \<open>currency_code\<close> is \<open>data.currency\<close> when that is truthy and \<open>EUR\<close> otherwise, and
  its \<open>value\<close> is \<open>toFixed(2)\<close> of the parsed amount.
\<close>

lemma purchase_unit_sent:
  assumes "env_truthy (penv ''PAYPAL_CLIENT_ID'')" and "env_truthy (penv ''PAYPAL_SECRET'')"
    and "truthy body" and "parse_payload rt body = Some payload"
    and "prop_of payload ''action'' = JStr ''createOrder''"
    and "truthy (prop_of payload ''data'')"
    and "parseFloat rt (prop_of (prop_of payload ''data'') ''amount'') = Inr amount"
    and "\<not> isNaN amount" and "\<not> le_zero amount"
    and "currency = prop_of (prop_of payload ''data'') ''currency''"
  shows "\<exists>paypalClient request_body.
     sdk_calls (module_exports rt penv execute body) =
       [(paypalClient, OrdersCreateRequest ''return=representation'' request_body)] \<and>
     prop_of request_body ''purchase_units'' =
       JArr [JObj [(''amount'',
          JObj [(''currency_code'', if truthy currency then currency else JStr ''EUR''),
                (''value'', JStr (toFixed rt amount 2))])]]"
proof -
  obtain paypalClient where c: "createPayPalClient rt penv = Inr paypalClient"
    using createPayPalClient_configured assms(1,2) by blast
  have t: "try_block rt penv execute body = createOrder_branch rt execute paypalClient payload"
    using assms(3-6) c by (simp add: try_block_dispatch)
  have "fst (createOrder_branch rt execute paypalClient payload) =
      [(paypalClient, OrdersCreateRequest ''return=representation''
          (create_body rt payload amount))]"
    using assms(7-9) by (simp add: createOrder_branch_def Let_def)
  then have "sdk_calls (module_exports rt penv execute body) =
      [(paypalClient, OrdersCreateRequest ''return=representation''
          (create_body rt payload amount))]"
    using t by (cases "createOrder_branch rt execute paypalClient payload";
        cases "snd (createOrder_branch rt execute paypalClient payload)")
      (simp_all add: module_exports_def)
  moreover have "prop_of (create_body rt payload amount) ''purchase_units'' =
       JArr [JObj [(''amount'',
          JObj [(''currency_code'', if truthy currency then currency else JStr ''EUR''),
                (''value'', JStr (toFixed rt amount 2))])]]"
    using assms(10) by (simp add: create_body_def js_or_def)
  ultimately show ?thesis by blast
qed

text \<open>
  When the amount parses to a finite number above zero and below \<open>10 ^ 21\<close>, the value
  sent has exactly two decimal places, as the claim says.
\<close>

lemma finite_amount_two_decimal_places:
  assumes "env_truthy (penv ''PAYPAL_CLIENT_ID'')" and "env_truthy (penv ''PAYPAL_SECRET'')"
    and "truthy body" and "parse_payload rt body = Some payload"
    and "prop_of payload ''action'' = JStr ''createOrder''"
    and "truthy (prop_of payload ''data'')"
    and "parseFloat rt (prop_of (prop_of payload ''data'') ''amount'') = Inr (NumFin x)"
    and "0 < x" and "x < 10 ^ 21"
    and "currency = prop_of (prop_of payload ''data'') ''currency''"
  shows "\<exists>paypalClient request_body text.
     sdk_calls (module_exports rt penv execute body) =
       [(paypalClient, OrdersCreateRequest ''return=representation'' request_body)] \<and>
     prop_of request_body ''purchase_units'' =
       JArr [JObj [(''amount'',
          JObj [(''currency_code'', if truthy currency then currency else JStr ''EUR''),
                (''value'', JStr text)])]] \<and>
     text = toFixed rt (NumFin x) 2 \<and> two_decimal_places text"
proof -
  have "\<not> isNaN (NumFin x)" "\<not> le_zero (NumFin x)"
    using assms(8) by simp_all
  from purchase_unit_sent [OF assms(1-7) this assms(10), of execute]
  show ?thesis
    using toFixed_two_decimal_places [of x rt] assms(8,9) by auto
qed

text \<open>
  A finite amount of \<open>10 ^ 21\<close> or more passes the same check, and the value sent is the
  number's own text, in exponent notation.
\<close>

lemma huge_amount_text:
  assumes "10 ^ 21 \<le> x"
  shows "\<not> isNaN (NumFin x)" and "\<not> le_zero (NumFin x)"
    and "toFixed rt (NumFin x) 2 = Number_toString rt x"
proof -
  have "0 < x"
    using assms by (rule less_le_trans [rotated]) simp
  then show "\<not> isNaN (NumFin x)" and "\<not> le_zero (NumFin x)"
    and "toFixed rt (NumFin x) 2 = Number_toString rt x"
    using assms by (simp_all add: toFixed_def)
qed

text \<open>
  C9 at an amount that parses to Infinity: the amount passes the check of line 58,
  which rejects only NaN and values that are at most zero, and the value sent to the
  vendor is the text \<open>Infinity\<close>, which does not have two decimal places.
\<close>

theorem infinite_amount_sent:
  assumes "env_truthy (penv ''PAYPAL_CLIENT_ID'')" and "env_truthy (penv ''PAYPAL_SECRET'')"
    and "truthy body" and "parse_payload rt body = Some payload"
    and "prop_of payload ''action'' = JStr ''createOrder''"
    and "truthy (prop_of payload ''data'')"
    and "parseFloat rt (prop_of (prop_of payload ''data'') ''amount'') = Inr NumInf"
    and "currency = prop_of (prop_of payload ''data'') ''currency''"
  shows "\<exists>paypalClient request_body.
     sdk_calls (module_exports rt penv execute body) =
       [(paypalClient, OrdersCreateRequest ''return=representation'' request_body)] \<and>
     prop_of request_body ''purchase_units'' =
       JArr [JObj [(''amount'',
          JObj [(''currency_code'', if truthy currency then currency else JStr ''EUR''),
                (''value'', JStr ''Infinity'')])]] \<and>
     \<not> two_decimal_places ''Infinity''"
proof -
  have "\<not> isNaN NumInf" "\<not> le_zero NumInf"
    by simp_all
  from purchase_unit_sent [OF assms(1-7) this assms(8), of execute]
  show ?thesis
    using Infinity_not_two_decimal_places by (simp add: toFixed_def)
qed

text \<open>
  C9 at the create request whose amount is the string \<^verbatim>\<open>Infinity\<close>, with the
  credentials configured.
\<close>

theorem infinite_amount_sent_witness:
  "env_truthy (configured_env ''PAYPAL_CLIENT_ID'') \<and>
   env_truthy (configured_env ''PAYPAL_SECRET'') \<and>
   truthy create_infinite_body \<and>
   parse_payload example_runtime create_infinite_body = Some create_infinite_body \<and>
   prop_of create_infinite_body ''action'' = JStr ''createOrder'' \<and>
   truthy (prop_of create_infinite_body ''data'') \<and>
   parseFloat example_runtime (prop_of (prop_of create_infinite_body ''data'') ''amount'') =
     Inr NumInf \<and>
   (\<exists>paypalClient request_body.
      sdk_calls (module_exports example_runtime configured_env self_link_sdk
          create_infinite_body) =
        [(paypalClient, OrdersCreateRequest ''return=representation'' request_body)] \<and>
      prop_of request_body ''purchase_units'' =
        JArr [JObj [(''amount'',
           JObj [(''currency_code'', JStr ''EUR''), (''value'', JStr ''Infinity'')])]] \<and>
      \<not> two_decimal_places ''Infinity'')"
  using infinite_amount_sent [where execute = self_link_sdk,
      OF configured_env_credentials create_infinite_body_facts(1,2,3,5,6)
        create_infinite_body_facts(7) [symmetric]]
  by (simp add: configured_env_credentials create_infinite_body_facts)

section \<open>C10: a created order without an approval link\<close>

text \<open>
  For every create request that reaches the SDK and is answered with a response in
  which no element of \<open>result.links\<close> has \<open>rel\<close> equal to \<open>approve\<close> together
  with a truthy \<open>href\<close>, the handler makes that one SDK call and returns an error
  response with code 500, never a success response; and when \<open>result.links\<close> is an
  array without a null or undefined element, the message is
  \<open>Missing approval URL in PayPal response\<close> and that error is the one logged.
\<close>

lemma missing_approval_url:
  assumes "truthy body" and "parse_payload rt body = Some payload"
    and "prop_of payload ''action'' = JStr ''createOrder''"
    and "truthy (prop_of payload ''data'')"
    and "parseFloat rt (prop_of (prop_of payload ''data'') ''amount'') = Inr amount"
    and "\<not> isNaN amount" and "\<not> le_zero amount"
    and "createPayPalClient rt penv = Inr paypalClient"
    and "createRequest =
           OrdersCreateRequest ''return=representation'' (create_body rt payload amount)"
    and "execute paypalClient createRequest = Inr createResponse"
    and "\<not> (\<exists>links link.
           prop_of (prop_of createResponse ''result'') ''links'' = JArr links \<and>
           link \<in> set links \<and> prop_of link ''rel'' = JStr ''approve'' \<and>
           truthy (prop_of link ''href''))"
  shows "\<exists>r. response (module_exports rt penv execute body) = Some r \<and>
           prop_of r ''status'' = JStr ''error'' \<and>
           prop_of r ''code'' = JNum (NumFin 500) \<and>
           sdk_calls (module_exports rt penv execute body) = [(paypalClient, createRequest)] \<and>
           (\<forall>links. prop_of (prop_of createResponse ''result'') ''links'' = JArr links \<and>
                    (\<forall>link \<in> set links. \<not> nullish link) \<longrightarrow>
              prop_of r ''message'' = JStr ''Missing approval URL in PayPal response'' \<and>
              error_log (module_exports rt penv execute body) =
                [new_Error rt ''Missing approval URL in PayPal response''])"
proof -
  obtain error where e: "create_result rt createResponse = Inl error"
    using assms(11) create_result_success_link [of rt createResponse]
    by (cases "create_result rt createResponse") auto
  have o: "(\<exists>v k. error = TypeError rt v k) \<or>
      error = new_Error rt ''Missing approval URL in PayPal response''"
    using e by (rule create_result_error_origin)
  then have s: "\<not> nullish error" "prop_of error ''statusCode'' = JUndefined"
    by (auto simp: TypeError_props new_Error_props)
  have "try_block rt penv execute body = createOrder_branch rt execute paypalClient payload"
    using assms(1-4,8) by (simp add: try_block_dispatch)
  also have "\<dots> = ([(paypalClient, createRequest)], Inl error)"
    using assms(5-7,9,10) e by (simp add: createOrder_branch_def Let_def and_then_def)
  finally have m: "module_exports rt penv execute body =
      \<lparr>sdk_calls = [(paypalClient, createRequest)], error_log = [error],
       response = Some (catch_response penv error)\<rparr>"
    using s(1) by (simp add: module_exports_of_try)
  have w: "error = new_Error rt ''Missing approval URL in PayPal response''"
    if "prop_of (prop_of createResponse ''result'') ''links'' = JArr links"
      and "\<forall>link \<in> set links. \<not> nullish link" for links
  proof -
    have "\<forall>link \<in> set links.
        \<not> (prop_of link ''rel'' = JStr ''approve'' \<and> truthy (prop_of link ''href''))"
      using assms(11) that(1) by blast
    from create_result_missing_url [OF that this, of rt] e show ?thesis
      by simp
  qed
  have c: "prop_of (catch_response penv error) ''status'' = JStr ''error''"
      "prop_of (catch_response penv error) ''code'' = JNum (NumFin 500)"
    using s(2) by (simp_all add: catch_response_def js_or_def)
  have f: "\<forall>links. prop_of (prop_of createResponse ''result'') ''links'' = JArr links \<and>
                    (\<forall>link \<in> set links. \<not> nullish link) \<longrightarrow>
      prop_of (catch_response penv error) ''message'' =
        JStr ''Missing approval URL in PayPal response'' \<and>
      error = new_Error rt ''Missing approval URL in PayPal response''"
  proof (intro allI impI)
    fix links
    assume "prop_of (prop_of createResponse ''result'') ''links'' = JArr links \<and>
            (\<forall>link \<in> set links. \<not> nullish link)"
    then have "error = new_Error rt ''Missing approval URL in PayPal response''"
      using w by blast
    then show "prop_of (catch_response penv error) ''message'' =
        JStr ''Missing approval URL in PayPal response'' \<and>
      error = new_Error rt ''Missing approval URL in PayPal response''"
      by (simp add: catch_response_def js_or_def new_Error_props)
  qed
  show ?thesis
    unfolding m using c f by (intro exI [of _ "catch_response penv error"]) auto
qed

text \<open>
  The create request with the amount 5, answered by the vendor whose order carries only
  a \<open>self\<close> link.
\<close>

lemma self_link_missing_approval_url:
  "truthy create_five_body \<and>
   parse_payload example_runtime create_five_body = Some create_five_body \<and>
   prop_of create_five_body ''action'' = JStr ''createOrder'' \<and>
   truthy (prop_of create_five_body ''data'') \<and>
   parseFloat example_runtime (prop_of (prop_of create_five_body ''data'') ''amount'') =
     Inr (NumFin 5) \<and>
   createPayPalClient example_runtime configured_env =
     Inr (PayPalHttpClient (SandboxEnvironment ''client-id'' ''client-secret'')) \<and>
   self_link_sdk (PayPalHttpClient (SandboxEnvironment ''client-id'' ''client-secret''))
     (OrdersCreateRequest ''return=representation''
        (create_body example_runtime create_five_body (NumFin 5))) = Inr self_link_response \<and>
   prop_of (prop_of self_link_response ''result'') ''links'' =
     JArr [JObj [(''href'',
              JStr ''https://api.sandbox.paypal.com/v2/checkout/orders/5O190127TN364715T''),
            (''rel'', JStr ''self''), (''method'', JStr ''GET'')]] \<and>
   (\<exists>r. response (module_exports example_runtime configured_env self_link_sdk
            create_five_body) = Some r \<and>
         prop_of r ''status'' = JStr ''error'' \<and>
         prop_of r ''code'' = JNum (NumFin 500) \<and>
         prop_of r ''message'' = JStr ''Missing approval URL in PayPal response'')"
proof -
  have n: "\<not> isNaN (NumFin 5)" "\<not> le_zero (NumFin 5)"
    by simp_all
  have e: "self_link_sdk (PayPalHttpClient (SandboxEnvironment ''client-id'' ''client-secret''))
     (OrdersCreateRequest ''return=representation''
        (create_body example_runtime create_five_body (NumFin 5))) = Inr self_link_response"
    by (simp add: self_link_sdk_def)
  have l: "prop_of (prop_of self_link_response ''result'') ''links'' =
     JArr [JObj [(''href'',
              JStr ''https://api.sandbox.paypal.com/v2/checkout/orders/5O190127TN364715T''),
            (''rel'', JStr ''self''), (''method'', JStr ''GET'')]]"
    by (simp add: self_link_response_def)
  have a: "\<not> (\<exists>links link.
      prop_of (prop_of self_link_response ''result'') ''links'' = JArr links \<and>
      link \<in> set links \<and> prop_of link ''rel'' = JStr ''approve'' \<and>
      truthy (prop_of link ''href''))"
    by (auto simp: l)
  show ?thesis
    using e l
      missing_approval_url [where rt = example_runtime and penv = configured_env
        and execute = self_link_sdk and body = create_five_body
        and payload = create_five_body and amount = "NumFin 5"
        and paypalClient = "PayPalHttpClient (SandboxEnvironment ''client-id'' ''client-secret'')"
        and createRequest = "OrdersCreateRequest ''return=representation''
          (create_body example_runtime create_five_body (NumFin 5))"
        and createResponse = self_link_response,
        OF create_five_body_facts(1,2,3,5,6) n configured_env_client refl e a]
    by (auto simp: create_five_body_facts configured_env_client)
qed

text \<open>
  C10 at a created order that has no \<open>links\<close> at all: the response contains no link
  with \<open>rel\<close> equal to \<open>approve\<close>, but line 85 calls \<^verbatim>\<open>find\<close> on undefined, which
  throws a TypeError before the check of line 89 is reached. The handler's response
  carries the TypeError's message, not \<open>Missing approval URL in PayPal response\<close>.
  The capture branch reads its response with \<^verbatim>\<open>?.\<close> (line 117), and line 89 reads
  the link found with \<^verbatim>\<open>?.\<close>; the read of \<open>links\<close> is the one left unguarded.
\<close>

theorem missing_links_response:
  "no_links_sdk (PayPalHttpClient (SandboxEnvironment ''client-id'' ''client-secret''))
     (OrdersCreateRequest ''return=representation''
        (create_body example_runtime create_five_body (NumFin 5))) = Inr no_links_response \<and>
   prop_of (prop_of no_links_response ''result'') ''links'' = JUndefined \<and>
   response (module_exports example_runtime configured_env no_links_sdk create_five_body) =
     Some (JObj [(''status'', JStr ''error''), (''code'', JNum (NumFin 500)),
       (''message'', JStr ''Cannot read properties of undefined (reading find)''),
       (''debug'', JStr ''Error: Cannot read properties of undefined (reading find)'')]) \<and>
   response (module_exports example_runtime configured_env no_links_sdk create_five_body) \<noteq>
     Some (JObj [(''status'', JStr ''error''), (''code'', JNum (NumFin 500)),
       (''message'', JStr ''Missing approval URL in PayPal response''),
       (''debug'', JStr ''Error: Missing approval URL in PayPal response'')])"
proof -
  have e: "no_links_sdk (PayPalHttpClient (SandboxEnvironment ''client-id'' ''client-secret''))
     (OrdersCreateRequest ''return=representation''
        (create_body example_runtime create_five_body (NumFin 5))) = Inr no_links_response"
    by (simp add: no_links_sdk_def)
  have l: "prop_of (prop_of no_links_response ''result'') ''links'' = JUndefined"
    by (simp add: no_links_response_def)
  have "create_result example_runtime no_links_response =
      Inl (TypeError example_runtime JUndefined ''find'')"
    by (simp add: create_result_def and_then_def read_prop_def links_find_def
          no_links_response_def)
  then have "createOrder_branch example_runtime no_links_sdk
      (PayPalHttpClient (SandboxEnvironment ''client-id'' ''client-secret'')) create_five_body =
    ([(PayPalHttpClient (SandboxEnvironment ''client-id'' ''client-secret''),
       OrdersCreateRequest ''return=representation''
         (create_body example_runtime create_five_body (NumFin 5)))],
     Inl (TypeError example_runtime JUndefined ''find''))"
    using e by (simp add: createOrder_branch_def create_five_body_facts Let_def and_then_def)
  then have "try_block example_runtime configured_env no_links_sdk create_five_body =
    ([(PayPalHttpClient (SandboxEnvironment ''client-id'' ''client-secret''),
       OrdersCreateRequest ''return=representation''
         (create_body example_runtime create_five_body (NumFin 5)))],
     Inl (TypeError example_runtime JUndefined ''find''))"
    by (simp add: try_block_dispatch [where payload = create_five_body]
          create_five_body_facts configured_env_client)
  then have "response (module_exports example_runtime configured_env no_links_sdk
      create_five_body) =
     Some (JObj [(''status'', JStr ''error''), (''code'', JNum (NumFin 500)),
       (''message'', JStr ''Cannot read properties of undefined (reading find)''),
       (''debug'', JStr ''Error: Cannot read properties of undefined (reading find)'')])"
    by (simp add: module_exports_of_try TypeError_props catch_response_def js_or_def
          example_runtime_def example_type_error_message_def configured_env_mode)
  then show ?thesis
    using e l by simp
qed

end
